theory Spec2Isabelle
  imports Main
begin

section \<open>String primitives of the host language\<close>

text \<open>
  A document is a sequence of code units; a \<^typ>\<open>char\<close> stands for one code unit, so the
  model covers texts whose code units are below 256. The predicates below are the
  character classes of the regular expressions used by the extension.
\<close>

text \<open>The class \<^verbatim>\<open>\s\<close>, which is also the set removed by \<^verbatim>\<open>String.prototype.trim\<close>:
  TAB, LF, VT, FF, CR, SPACE and NO-BREAK SPACE.\<close>

definition isWhiteSpace :: "char \<Rightarrow> bool" where
  "isWhiteSpace c =
     (c = CHR 0x09 \<or> c = CHR 0x0A \<or> c = CHR 0x0B \<or> c = CHR 0x0C \<or> c = CHR 0x0D
      \<or> c = CHR 0x20 \<or> c = CHR 0xA0)"

text \<open>The class \<^verbatim>\<open>\w\<close>: \<^verbatim>\<open>[A-Za-z0-9_]\<close>.\<close>

definition isWordChar :: "char \<Rightarrow> bool" where
  "isWordChar c =
     (let n = (of_char c :: nat)
      in (65 \<le> n \<and> n \<le> 90) \<or> (97 \<le> n \<and> n \<le> 122) \<or> (48 \<le> n \<and> n \<le> 57) \<or> n = 95)"

text \<open>\<^verbatim>\<open>s.trim()\<close>\<close>

definition trim :: "string \<Rightarrow> string" where
  "trim s = rev (dropWhile isWhiteSpace (rev (dropWhile isWhiteSpace s)))"

text \<open>\<^verbatim>\<open>s.startsWith(p)\<close>, also the anchored literal regex \<^verbatim>\<open>/^p/\<close>\<close>

definition startsWith :: "string \<Rightarrow> string \<Rightarrow> bool" where
  "startsWith s p = (take (length p) s = p)"

text \<open>\<^verbatim>\<open>s.endsWith(p)\<close>\<close>

definition endsWith :: "string \<Rightarrow> string \<Rightarrow> bool" where
  "endsWith s p = (length p \<le> length s \<and> drop (length s - length p) s = p)"

text \<open>\<^verbatim>\<open>s.split(c)\<close> for a one-character separator: the result is never empty, the
  empty string gives one empty piece.\<close>

fun splitOn :: "char \<Rightarrow> string \<Rightarrow> string list" where
  "splitOn sep [] = [[]]"
| "splitOn sep (c # cs) =
     (if c = sep then [] # splitOn sep cs
      else (case splitOn sep cs of
              [] \<Rightarrow> [[c]]
            | l # ls \<Rightarrow> (c # l) # ls))"

text \<open>\<^verbatim>\<open>s.split('\n')\<close>\<close>

definition split_nl :: "string \<Rightarrow> string list" where
  "split_nl s = splitOn CHR 0x0A s"

text \<open>\<^verbatim>\<open>line.match(/^\s/)\<close>: the line begins with a whitespace character.\<close>

definition beginsWithSpace :: "string \<Rightarrow> bool" where
  "beginsWithSpace line = (case line of [] \<Rightarrow> False | c # _ \<Rightarrow> isWhiteSpace c)"

section \<open>Cursor classification inside the frontmatter\<close>

text \<open>
  The three classifiers of the completion provider share one loop:
  \<^verbatim>\<open>
  let inBlock = false;
  for (let i = 0; i <= frontmatterLineIndex; i++) {
      const line = lines[i];
      if (line.match(OPENER)) { inBlock = true; }
      else if (inBlock && line.trim() && !line.match(/^\s/)) { inBlock = false; }
  }
  return inBlock;
  \<close>
  \<open>blockScan\<close> is that loop over the lines \<open>0..frontmatterLineIndex\<close>, with the opener
  test as a parameter and the flag as an accumulator.
\<close>

fun blockScan :: "(string \<Rightarrow> bool) \<Rightarrow> string list \<Rightarrow> bool \<Rightarrow> bool" where
  "blockScan opener [] inBlock = inBlock"
| "blockScan opener (line # rest) inBlock =
     blockScan opener rest
       (if opener line then True
        else if inBlock \<and> trim line \<noteq> [] \<and> \<not> beginsWithSpace line then False
        else inBlock)"

text \<open>
  The guard and the loop bounds: \<open>position.line\<close> is a line number of the document
  (a natural number), \<open>frontmatterLineIndex = position.line - 1\<close> is an integer.
\<close>

definition classifyBlock :: "(string \<Rightarrow> bool) \<Rightarrow> nat \<Rightarrow> string \<Rightarrow> bool" where
  "classifyBlock opener positionLine frontmatter =
     (let frontmatterLineIndex = int positionLine - 1;
          lines = split_nl frontmatter
      in if frontmatterLineIndex < 0 \<or> frontmatterLineIndex \<ge> int (length lines) then False
         else blockScan opener (take (nat frontmatterLineIndex + 1) lines) False)"

text \<open>\<^verbatim>\<open>/^(mcp_servers|mcpServers):/\<close>, \<^verbatim>\<open>/^subagents:/\<close> and \<^verbatim>\<open>/^tools:/\<close>\<close>

definition mcpServersOpener :: "string \<Rightarrow> bool" where
  "mcpServersOpener line = (startsWith line ''mcp_servers:'' \<or> startsWith line ''mcpServers:'')"

definition subagentsOpener :: "string \<Rightarrow> bool" where
  "subagentsOpener line = startsWith line ''subagents:''"

definition toolsOpener :: "string \<Rightarrow> bool" where
  "toolsOpener line = startsWith line ''tools:''"

text \<open>The earlier revision of the provider, the one with inline tables, opens the
  block of servers with \<^verbatim>\<open>/^mcp_servers:/\<close> only; its other two classifiers are the same.\<close>

definition mcpServersOpenerInline :: "string \<Rightarrow> bool" where
  "mcpServersOpenerInline line = startsWith line ''mcp_servers:''"

definition isInMcpServersBlockInline :: "nat \<Rightarrow> string \<Rightarrow> bool" where
  "isInMcpServersBlockInline positionLine frontmatter =
     classifyBlock mcpServersOpenerInline positionLine frontmatter"

definition isInMcpServersBlock :: "nat \<Rightarrow> string \<Rightarrow> bool" where
  "isInMcpServersBlock positionLine frontmatter =
     classifyBlock mcpServersOpener positionLine frontmatter"

definition isInSubagentsBlock :: "nat \<Rightarrow> string \<Rightarrow> bool" where
  "isInSubagentsBlock positionLine frontmatter =
     classifyBlock subagentsOpener positionLine frontmatter"

definition isInToolsBlock :: "nat \<Rightarrow> string \<Rightarrow> bool" where
  "isInToolsBlock positionLine frontmatter =
     classifyBlock toolsOpener positionLine frontmatter"

subsection \<open>The classification stated on the lines\<close>

text \<open>
  A block terminator is a line that is not blank after trimming and does not begin with
  a whitespace character. A marker of a block is an opener of that block or a terminator.
  \<open>lastMarker\<close> is the last marker among the given lines, if there is one.
\<close>

definition blockTerminator :: "string \<Rightarrow> bool" where
  "blockTerminator line = (trim line \<noteq> [] \<and> \<not> beginsWithSpace line)"

definition lastMarker :: "(string \<Rightarrow> bool) \<Rightarrow> string list \<Rightarrow> string option" where
  "lastMarker opener ls =
     (case rev (filter (\<lambda>l. opener l \<or> blockTerminator l) ls) of
        [] \<Rightarrow> None
      | m # _ \<Rightarrow> Some m)"

definition lastMarkerOpens :: "(string \<Rightarrow> bool) \<Rightarrow> string list \<Rightarrow> bool" where
  "lastMarkerOpens opener ls =
     (case lastMarker opener ls of None \<Rightarrow> False | Some m \<Rightarrow> opener m)"

section \<open>The run command and its pseudoterminal\<close>

subsection \<open>The child process as the extension sees it\<close>

datatype signal = SIGINT | SIGTERM

text \<open>
  One call of \<^verbatim>\<open>cp.spawn(command, args, options)\<close>. The options of the call are
  \<^verbatim>\<open>shell: true\<close>, \<^verbatim>\<open>cwd\<close> (the first workspace folder, if any) and the environment
  entries added to \<^verbatim>\<open>process.env\<close>.
\<close>

record spawn_call =
  command :: string
  args :: "string list"
  shell :: bool
  cwd :: "string option"
  envAdded :: "(string \<times> string) list"

text \<open>
  The \<^verbatim>\<open>ChildProcess\<close> object: which of its streams exist, its \<^verbatim>\<open>killed\<close> flag, and
  the calls the extension made on it (the signals passed to \<^verbatim>\<open>kill\<close>, the strings passed to
  \<^verbatim>\<open>stdin.write\<close>).
\<close>

record child_process =
  spawnedAs :: spawn_call
  hasStdin :: bool
  hasStdout :: bool
  hasStderr :: bool
  killed :: bool
  signals :: "signal list"
  stdinWrites :: "string list"

text \<open>\<^verbatim>\<open>cp.spawn\<close> with the default \<^verbatim>\<open>stdio\<close>: the three streams are pipes.\<close>

definition spawn :: "spawn_call \<Rightarrow> child_process" where
  "spawn c = \<lparr>spawnedAs = c, hasStdin = True, hasStdout = True, hasStderr = True,
              killed = False, signals = [], stdinWrites = []\<rparr>"

text \<open>\<^verbatim>\<open>child.kill(sig)\<close> on a running child: the signal is sent and \<^verbatim>\<open>killed\<close> is set.\<close>

definition kill :: "signal \<Rightarrow> child_process \<Rightarrow> child_process" where
  "kill sig p = p\<lparr>signals := signals p @ [sig], killed := True\<rparr>"

subsection \<open>AgentUsePseudoterminal\<close>

text \<open>
  The fields of the class: \<open>filePath\<close>, \<open>process\<close>, and the strings fired on
  \<open>writeEmitter\<close> (what the terminal displays), in order. \<open>spawned\<close> is the log of the
  \<^verbatim>\<open>cp.spawn\<close> calls made through this object.
\<close>

record pseudoterminal =
  filePath :: string
  process :: "child_process option"
  written :: "string list"
  spawned :: "spawn_call list"

definition newPseudoterminal :: "string \<Rightarrow> pseudoterminal" where
  "newPseudoterminal fp = \<lparr>filePath = fp, process = None, written = [], spawned = []\<rparr>"

definition fire :: "string \<Rightarrow> pseudoterminal \<Rightarrow> pseudoterminal" where
  "fire s t = t\<lparr>written := written t @ [s]\<rparr>"

text \<open>\<^verbatim>\<open>'='.repeat(80)\<close>\<close>

definition rule80 :: string where
  "rule80 = replicate 80 CHR ''=''"

text \<open>
  \<^verbatim>\<open>open()\<close>; \<open>workspaceFolders\<close> are the paths of \<^verbatim>\<open>vscode.workspace.workspaceFolders\<close>.
\<close>

definition pty_open :: "string list \<Rightarrow> pseudoterminal \<Rightarrow> pseudoterminal" where
  "pty_open workspaceFolders t =
     (let t1 = fire (''Running: agentuse run \"'' @ filePath t @ ''\"'' @ [CHR 0x0D, CHR 0x0A]) t;
          t2 = fire (rule80 @ [CHR 0x0D, CHR 0x0A, CHR 0x0D, CHR 0x0A]) t1;
          call = \<lparr>command = ''agentuse'', args = [''run'', filePath t], shell = True,
                  cwd = (case workspaceFolders of [] \<Rightarrow> None | w # _ \<Rightarrow> Some w),
                  envAdded = [(''FORCE_COLOR'', ''1''), (''TERM'', ''xterm-256color'')]\<rparr>
      in t2\<lparr>process := Some (spawn call), spawned := spawned t2 @ [call]\<rparr>)"

text \<open>\<^verbatim>\<open>s.replace(/\n/g, '\r\n')\<close>\<close>

definition replaceNewlines :: "string \<Rightarrow> string" where
  "replaceNewlines s = concat (map (\<lambda>c. if c = CHR 0x0A then [CHR 0x0D, CHR 0x0A] else [c]) s)"





text \<open>\<^verbatim>\<open>handleInput(data)\<close>\<close>

definition pty_handleInput :: "string \<Rightarrow> pseudoterminal \<Rightarrow> pseudoterminal" where
  "pty_handleInput data t =
     (if data = [CHR 0x03] then
        (case process t of
           None \<Rightarrow> t
         | Some p \<Rightarrow>
             if \<not> killed p
             then fire (''^C'' @ [CHR 0x0D, CHR 0x0A]) (t\<lparr>process := Some (kill SIGINT p)\<rparr>)
             else t)
      else
        (case process t of
           None \<Rightarrow> t
         | Some p \<Rightarrow>
             if hasStdin p
             then t\<lparr>process := Some (p\<lparr>stdinWrites := stdinWrites p @ [data]\<rparr>)\<rparr>
             else t))"

text \<open>\<^verbatim>\<open>close()\<close>: \<^verbatim>\<open>kill()\<close> without argument sends \<^verbatim>\<open>SIGTERM\<close>.\<close>

definition pty_close :: "pseudoterminal \<Rightarrow> pseudoterminal" where
  "pty_close t =
     (case process t of
        None \<Rightarrow> t
      | Some p \<Rightarrow> if \<not> killed p then t\<lparr>process := Some (kill SIGTERM p)\<rparr> else t)"

subsection \<open>The command \<open>agentuse.run\<close>\<close>

text \<open>
  What the command handler asks of the editor host, in order. \<open>activeTextEditor\<close> is
  \<open>None\<close> when there is no active editor, otherwise the \<^verbatim>\<open>document.uri.fsPath\<close> of its
  document. The handler awaits \<^verbatim>\<open>document.save()\<close> and ignores the boolean it resolves to.
\<close>

datatype host_request =
    ShowErrorMessage string
  | SaveDocument string
  | CreateTerminal string pseudoterminal
  | ShowTerminal bool

text \<open>\<^verbatim>\<open>filePath.split('/').pop() || 'output'\<close>\<close>

definition terminalFileName :: "string \<Rightarrow> string" where
  "terminalFileName fp = (let l = last (splitOn CHR ''/'' fp) in if l = [] then ''output'' else l)"

definition runCommand :: "string option \<Rightarrow> host_request list" where
  "runCommand activeTextEditor =
     (case activeTextEditor of
        None \<Rightarrow> [ShowErrorMessage ''No active file'']
      | Some fp \<Rightarrow>
          if \<not> endsWith fp ''.agentuse''
          then [ShowErrorMessage ''Current file is not an .agentuse file'']
          else [SaveDocument fp,
                CreateTerminal (''AgentUse: '' @ terminalFileName fp) (newPseudoterminal fp),
                ShowTerminal True])"

text \<open>
  The host opens the pseudoterminal of every terminal it was asked to create; the
  subprocesses of a run action are the \<^verbatim>\<open>cp.spawn\<close> calls made while the host serves the
  requests of the command.
\<close>

fun createdTerminals :: "host_request list \<Rightarrow> pseudoterminal list" where
  "createdTerminals [] = []"
| "createdTerminals (CreateTerminal name t # rs) = t # createdTerminals rs"
| "createdTerminals (_ # rs) = createdTerminals rs"

fun savedDocuments :: "host_request list \<Rightarrow> string list" where
  "savedDocuments [] = []"
| "savedDocuments (SaveDocument fp # rs) = fp # savedDocuments rs"
| "savedDocuments (_ # rs) = savedDocuments rs"

fun errorMessages :: "host_request list \<Rightarrow> string list" where
  "errorMessages [] = []"
| "errorMessages (ShowErrorMessage m # rs) = m # errorMessages rs"
| "errorMessages (_ # rs) = errorMessages rs"

definition runActionSpawns :: "string list \<Rightarrow> string option \<Rightarrow> spawn_call list" where
  "runActionSpawns workspaceFolders activeTextEditor =
     concat (map (\<lambda>t. spawned (pty_open workspaceFolders t))
               (createdTerminals (runCommand activeTextEditor)))"

subsection \<open>What a spawn call starts\<close>

text \<open>
  \<^verbatim>\<open>cp.spawn(command, args, {shell: true})\<close> does not execute \<open>command\<close> with the argument
  vector \<open>args\<close>. Node joins the command and the arguments with single spaces, without
  quoting any of them, and starts \<^verbatim>\<open>/bin/sh -c\<close> with that line; without the option it
  executes the command with the arguments as they are. \<open>joinSpace\<close> is
  \<^verbatim>\<open>[command, ...args].join(' ')\<close>.
\<close>

fun joinSpace :: "string list \<Rightarrow> string" where
  "joinSpace [] = []"
| "joinSpace [w] = w"
| "joinSpace (w # ws) = w @ '' '' @ joinSpace ws"

record os_process =
  executable :: string
  argv :: "string list"

definition spawnedProcess :: "spawn_call \<Rightarrow> os_process" where
  "spawnedProcess c =
     (if shell c
      then \<lparr>executable = ''/bin/sh'', argv = [''-c'', joinSpace (command c # args c)]\<rparr>
      else \<lparr>executable = command c, argv = args c\<rparr>)"

text \<open>
  How the shell reads a line that has no quotes, no backslashes and no operator other
  than the semicolon: semicolons separate the commands, blanks separate the words of a
  command, and the shell starts one process for each command, the first word being the
  program and the other words its arguments.
\<close>

definition shellWords :: "string \<Rightarrow> string list" where
  "shellWords line = filter (\<lambda>w. w \<noteq> []) (splitOn CHR '' '' line)"

definition shellCommands :: "string \<Rightarrow> string list list" where
  "shellCommands line = filter (\<lambda>ws. ws \<noteq> []) (map shellWords (splitOn CHR '';'' line))"

text \<open>The programs, each with its arguments, that run for one spawn call.\<close>

definition startedPrograms :: "spawn_call \<Rightarrow> string list list" where
  "startedPrograms c =
     (if shell c then shellCommands (joinSpace (command c # args c))
      else [command c # args c])"

section \<open>Discovery of agent files\<close>

text \<open>
  The file system as the extension reads it: \<^verbatim>\<open>fs.readdirSync(dir, {withFileTypes: true})\<close>
  either throws or returns the entries of the directory, each with its name and whether
  it is a directory. Nothing bounds the depth of a file system given this way.
\<close>

datatype fs_error = EACCES | ENOENT | ENOTDIR

record dirent =
  name :: string
  isDirectory :: bool

text \<open>
  \<^verbatim>\<open>findAgentUseFilesRecursive(dir, maxDepth, currentDepth = 0)\<close>. A value \<open>Inl err\<close> is an
  exception that leaves the function. The loop over the entries carries the array
  \<open>files\<close>, which is declared outside the \<^verbatim>\<open>try\<close> and keeps what was pushed before an
  exception, and the exception thrown inside the loop, if any; the \<^verbatim>\<open>catch\<close> discards the
  exception and the function returns \<open>files\<close>. \<open>pathJoin\<close> is \<^verbatim>\<open>path.join\<close>.
\<close>

function findAgentUseFilesRecursive ::
  "(string \<Rightarrow> fs_error + dirent list) \<Rightarrow> (string \<Rightarrow> string \<Rightarrow> string) \<Rightarrow>
   string \<Rightarrow> nat \<Rightarrow> nat \<Rightarrow> fs_error + string list" where
  "findAgentUseFilesRecursive readdirSync pathJoin dir maxDepth currentDepth =
     (if currentDepth \<ge> maxDepth then Inr []
      else
        Inr (case readdirSync dir of
               Inl err \<Rightarrow> []
             | Inr entries \<Rightarrow>
                 fst (fold
                   (\<lambda>entry (files, thrown).
                      case thrown of
                        Some err \<Rightarrow> (files, thrown)
                      | None \<Rightarrow>
                          if startsWith (name entry) ''.'' \<or> name entry = ''node_modules''
                          then (files, None)
                          else
                            let fullPath = pathJoin dir (name entry)
                            in if isDirectory entry then
                                 (case findAgentUseFilesRecursive readdirSync pathJoin fullPath
                                         maxDepth (currentDepth + 1) of
                                    Inl err \<Rightarrow> (files, Some err)
                                  | Inr found \<Rightarrow> (files @ found, None))
                               else if endsWith (name entry) ''.agentuse''
                               then (files @ [fullPath], None)
                               else (files, None))
                   entries ([], None))))"
  by pat_completeness auto
termination
  by (relation "measure (\<lambda>(readdirSync, pathJoin, dir, maxDepth, currentDepth).
                  maxDepth - currentDepth)") auto

declare findAgentUseFilesRecursive.simps [simp del]

subsection \<open>Completion items\<close>

datatype item_kind = Value | Property | File | Snippet | Module

datatype insert_text = PlainText string | SnippetString string

record completion_item =
  itemLabel :: string
  itemKind :: item_kind
  itemDetail :: "string option"
  itemInsertText :: "insert_text option"

definition createCompletion :: "string \<Rightarrow> string \<Rightarrow> string \<Rightarrow> item_kind \<Rightarrow> completion_item" where
  "createCompletion l d ins k =
     \<lparr>itemLabel = l, itemKind = k, itemDetail = Some d, itemInsertText = Some (PlainText ins)\<rparr>"

definition createSnippetCompletion :: "string \<Rightarrow> string \<Rightarrow> string \<Rightarrow> item_kind \<Rightarrow> completion_item" where
  "createSnippetCompletion l d snip k =
     \<lparr>itemLabel = l, itemKind = k, itemDetail = Some d, itemInsertText = Some (SnippetString snip)\<rparr>"

subsection \<open>The document and the host\<close>

text \<open>
  A text document: its text (\<^verbatim>\<open>getText()\<close>, lines separated by a line feed), the path
  \<^verbatim>\<open>uri.fsPath\<close>, and the path of the workspace folder it belongs to
  (\<^verbatim>\<open>vscode.workspace.getWorkspaceFolder(document.uri)\<close>), if any.
\<close>

record text_document =
  getText :: string
  fsPath :: string
  workspaceFolder :: "string option"

text \<open>What the provider uses of Node: the directory listing and the functions of
  \<^verbatim>\<open>path\<close>.\<close>

record node_host =
  readdirSync :: "string \<Rightarrow> fs_error + dirent list"
  pathJoin :: "string \<Rightarrow> string \<Rightarrow> string"
  pathRelative :: "string \<Rightarrow> string \<Rightarrow> string"
  pathDirname :: "string \<Rightarrow> string"
  pathBasename :: "string \<Rightarrow> string"

text \<open>\<^verbatim>\<open>getAgentUseFiles(document)\<close>: an exception of the discovery is caught before any
  item was pushed.\<close>

definition getAgentUseFiles :: "node_host \<Rightarrow> text_document \<Rightarrow> completion_item list" where
  "getAgentUseFiles h document =
     (case workspaceFolder document of
        None \<Rightarrow> []
      | Some folder \<Rightarrow>
          (let currentDir = pathDirname h (fsPath document)
           in case findAgentUseFilesRecursive (readdirSync h) (pathJoin h) folder 3 0 of
                Inl err \<Rightarrow> []
              | Inr files \<Rightarrow>
                  map (\<lambda>file. \<lparr>itemLabel = ''./'' @ pathRelative h currentDir file,
                               itemKind = File,
                               itemDetail = Some (pathBasename h file),
                               itemInsertText = None\<rparr>) files))"

subsection \<open>Paths below a directory\<close>

text \<open>
  \<open>listedAt rd dir cs\<close>: the components \<open>cs\<close> lead from \<open>dir\<close> through directory entries
  to an entry that is not a directory, following the listings of \<open>rd\<close>. The path they
  name is \<open>foldl pathJoin dir cs\<close>.
\<close>

fun listedAt ::
  "(string \<Rightarrow> fs_error + dirent list) \<Rightarrow> (string \<Rightarrow> string \<Rightarrow> string) \<Rightarrow>
   string \<Rightarrow> string list \<Rightarrow> bool" where
  "listedAt rd pj dir [] = False"
| "listedAt rd pj dir [c] =
     (case rd dir of
        Inl err \<Rightarrow> False
      | Inr entries \<Rightarrow> list_ex (\<lambda>e. name e = c \<and> \<not> isDirectory e) entries)"
| "listedAt rd pj dir (c # cs) =
     (case rd dir of
        Inl err \<Rightarrow> False
      | Inr entries \<Rightarrow>
          list_ex (\<lambda>e. name e = c \<and> isDirectory e) entries \<and> listedAt rd pj (pj dir c) cs)"

text \<open>\<open>dirChain rd dir cs\<close>: the components \<open>cs\<close> lead from \<open>dir\<close> through directory
  entries only, following the listings of \<open>rd\<close>.\<close>

fun dirChain ::
  "(string \<Rightarrow> fs_error + dirent list) \<Rightarrow> (string \<Rightarrow> string \<Rightarrow> string) \<Rightarrow>
   string \<Rightarrow> string list \<Rightarrow> bool" where
  "dirChain rd pj dir [] = True"
| "dirChain rd pj dir (c # cs) =
     (case rd dir of
        Inl err \<Rightarrow> False
      | Inr entries \<Rightarrow>
          list_ex (\<lambda>e. name e = c \<and> isDirectory e) entries \<and> dirChain rd pj (pj dir c) cs)"

text \<open>A component the scan skips: hidden, or \<open>node_modules\<close>.\<close>

definition skipped :: "string \<Rightarrow> bool" where
  "skipped c = (startsWith c ''.'' \<or> c = ''node_modules'')"

text \<open>A file system in which every directory that cannot be read is empty instead.\<close>

definition unreadableAsEmpty ::
  "(string \<Rightarrow> fs_error + dirent list) \<Rightarrow> string \<Rightarrow> fs_error + dirent list" where
  "unreadableAsEmpty rd dir = (case rd dir of Inl err \<Rightarrow> Inr [] | Inr entries \<Rightarrow> Inr entries)"

text \<open>What one entry of a directory contributes to the result of the scan of that
  directory.\<close>

definition entryFiles ::
  "(string \<Rightarrow> fs_error + dirent list) \<Rightarrow> (string \<Rightarrow> string \<Rightarrow> string) \<Rightarrow>
   string \<Rightarrow> nat \<Rightarrow> nat \<Rightarrow> dirent \<Rightarrow> string list" where
  "entryFiles rd pj dir m d entry =
     (if skipped (name entry) then []
      else if isDirectory entry
           then projr (findAgentUseFilesRecursive rd pj (pj dir (name entry)) m (Suc d))
           else if endsWith (name entry) ''.agentuse'' then [pj dir (name entry)] else [])"

text \<open>
  Two file systems for examples. In \<open>exampleFs\<close> the workspace \<open>/w\<close> holds an agent file,
  a directory \<open>locked\<close> that cannot be read, a hidden directory and a directory \<open>sub\<close>
  with one more agent file. In \<open>endlessFs\<close> every directory holds an agent file and a
  directory \<open>deep\<close>, without end. \<open>posixJoin\<close> joins a directory and a name with a slash.
\<close>

definition exampleFs :: "string \<Rightarrow> fs_error + dirent list" where
  "exampleFs d =
     (if d = ''/w'' then
        Inr [\<lparr>name = ''a.agentuse'', isDirectory = False\<rparr>,
             \<lparr>name = ''locked'', isDirectory = True\<rparr>,
             \<lparr>name = ''.git'', isDirectory = True\<rparr>,
             \<lparr>name = ''sub'', isDirectory = True\<rparr>]
      else if d = ''/w/sub'' then
        Inr [\<lparr>name = ''b.agentuse'', isDirectory = False\<rparr>,
             \<lparr>name = ''notes.md'', isDirectory = False\<rparr>]
      else Inl EACCES)"

definition endlessFs :: "string \<Rightarrow> fs_error + dirent list" where
  "endlessFs d = Inr [\<lparr>name = ''deep'', isDirectory = True\<rparr>,
                      \<lparr>name = ''x.agentuse'', isDirectory = False\<rparr>]"

definition posixJoin :: "string \<Rightarrow> string \<Rightarrow> string" where
  "posixJoin d n = d @ ''/'' @ n"

section \<open>The completion provider\<close>

subsection \<open>The schema tables\<close>

text \<open>
  The entries of the lookup tables: models and commands have a label and a detail, fields
  also the text to insert, a server template a detail and a snippet; a model of the
  generated schema also has an \<open>info\<close>, which the inline table leaves out. The provider reads
  the five tables; the current provider imports them from the generated schema module,
  so they are a parameter of its model.
\<close>

record labelled =
  label :: string
  detail :: string

record model_info =
  reasoning :: bool
  toolCall :: bool
  contextLimit :: nat

record model_item = labelled +
  info :: "model_info option"

record field_item = labelled +
  insertText :: string

record server_template =
  templateDetail :: string
  snippet :: string

record schema_tables =
  MODELS :: "model_item list"
  FRONTMATTER_FIELDS :: "field_item list"
  MCP_SERVER_FIELDS :: "field_item list"
  MCP_COMMANDS :: "labelled list"
  COMMON_MCP_SERVERS :: "(string \<times> server_template) list"

subsection \<open>Reading the document\<close>

text \<open>
  \<^verbatim>\<open>document.lineAt(line).text\<close>, which throws for a line that the document does not have,
  and \<^verbatim>\<open>document.offsetAt(position)\<close>, which first clamps the position to the document.
\<close>

datatype provider_error = IllegalLine

definition lineAt :: "text_document \<Rightarrow> nat \<Rightarrow> string option" where
  "lineAt document n =
     (let ls = split_nl (getText document) in if n < length ls then Some (ls ! n) else None)"

definition offsetAt :: "text_document \<Rightarrow> nat \<Rightarrow> nat \<Rightarrow> nat" where
  "offsetAt document line character =
     (let ls = split_nl (getText document)
      in if line < length ls
         then sum_list (map (\<lambda>l. length l + 1) (take line ls)) + min character (length (ls ! line))
         else length (getText document))"

text \<open>
  \<^verbatim>\<open>text.match(/^---\n([\s\S]*?)(\n---|\n?$)/)\<close>. After the opening line the lazy group
  grows one character at a time until the rest begins with a line feed and three dashes,
  or is one line feed, or is empty; \<open>scanFrontmatter\<close> returns the first group and the
  second. \<open>frontmatterMatch\<close> returns the whole match and the first group.
\<close>

fun scanFrontmatter :: "string \<Rightarrow> string \<times> string" where
  "scanFrontmatter [] = ([], [])"
| "scanFrontmatter (c # cs) =
     (if startsWith (c # cs) [CHR 0x0A, CHR ''-'', CHR ''-'', CHR ''-'']
      then ([], [CHR 0x0A, CHR ''-'', CHR ''-'', CHR ''-''])
      else if c # cs = [CHR 0x0A] then ([], [CHR 0x0A])
      else (case scanFrontmatter cs of (content, closing) \<Rightarrow> (c # content, closing)))"

definition frontmatterMatch :: "string \<Rightarrow> (string \<times> string) option" where
  "frontmatterMatch text =
     (if startsWith text [CHR ''-'', CHR ''-'', CHR ''-'', CHR 0x0A]
      then (case scanFrontmatter (drop 4 text) of
              (content, closing) \<Rightarrow>
                Some ([CHR ''-'', CHR ''-'', CHR ''-'', CHR 0x0A] @ content @ closing, content))
      else None)"

text \<open>\<^verbatim>\<open>/^\s*KEY:\s*$/\<close> for a literal key.\<close>

definition matchesKey :: "string \<Rightarrow> string \<Rightarrow> bool" where
  "matchesKey key s =
     (let r = dropWhile isWhiteSpace s
      in startsWith r (key @ '':'') \<and> list_all isWhiteSpace (drop (length key + 1) r))"

text \<open>\<^verbatim>\<open>/^\s*command:\s*["']?$/\<close>\<close>

definition matchesCommand :: "string \<Rightarrow> bool" where
  "matchesCommand s =
     (let r = dropWhile isWhiteSpace s;
          q = dropWhile isWhiteSpace (drop 8 r)
      in startsWith r ''command:'' \<and> (q = [] \<or> q = [CHR 0x22] \<or> q = [CHR 0x27]))"

text \<open>\<^verbatim>\<open>/^\s*-\s*$/\<close>\<close>

definition matchesDash :: "string \<Rightarrow> bool" where
  "matchesDash s =
     (case dropWhile isWhiteSpace s of
        [] \<Rightarrow> False
      | c # r \<Rightarrow> c = CHR ''-'' \<and> list_all isWhiteSpace r)"

text \<open>\<^verbatim>\<open>line.match(/^(\w+):/)\<close>: the first group, when the line matches.\<close>

definition fieldKey :: "string \<Rightarrow> string option" where
  "fieldKey line =
     (let w = takeWhile isWordChar line
      in if w \<noteq> [] \<and> startsWith (drop (length w) line) '':'' then Some w else None)"

definition getExistingFields :: "string \<Rightarrow> string set" where
  "getExistingFields frontmatter = set (List.map_filter fieldKey (split_nl frontmatter))"

subsection \<open>provideCompletionItems\<close>

text \<open>
  The provider for a cursor at \<open>(line, character)\<close>. Each \<^verbatim>\<open>return\<close> of the source is one
  branch, in the order of the source; a block of the source that returns in none of its
  inner cases falls through to the next one. This is the current provider. The earlier
  revision differs in the branch of the block of servers, which there also offers the
  server templates at indentation 2; that branch needs an indentation of at least 2.
\<close>

definition provideCompletionItems ::
  "schema_tables \<Rightarrow> node_host \<Rightarrow> text_document \<Rightarrow> nat \<Rightarrow> nat \<Rightarrow>
   provider_error + completion_item list" where
  "provideCompletionItems T h document line character =
     (case lineAt document line of
        None \<Rightarrow> Inl IllegalLine
      | Some lineText \<Rightarrow>
          (let linePrefix = take character lineText
           in case frontmatterMatch (getText document) of
                None \<Rightarrow>
                  if line = 0 \<and> linePrefix = []
                  then Inr [createSnippetCompletion ''---'' ''Start frontmatter''
                    (''---'' @ [CHR 0x0A]
                     @ ''model: ${1|anthropic:claude-sonnet-4-0,anthropic:claude-opus-4-1,openai:gpt-5|}''
                     @ [CHR 0x0A] @ ''---'' @ [CHR 0x0A, CHR 0x0A] @ ''$0'')
                    Snippet]
                  else Inr []
              | Some (whole, frontmatterContent) \<Rightarrow>
                  (let frontmatterEnd = length whole;
                       cursorOffset = offsetAt document line character
                   in if cursorOffset < 4 \<or> cursorOffset > frontmatterEnd then Inr []
                      else
                        (let inMcpServers = isInMcpServersBlock line frontmatterContent;
                             inSubagents = isInSubagentsBlock line frontmatterContent;
                             inTools = isInToolsBlock line frontmatterContent;
                             indent = length (takeWhile isWhiteSpace linePrefix)
                         in if matchesKey ''model'' linePrefix then
                              Inr (map (\<lambda>m. createCompletion (label m) (detail m) (label m) Value)
                                     (MODELS T))
                            else if matchesCommand linePrefix then
                              Inr (map (\<lambda>c. createCompletion (label c) (detail c)
                                               ([CHR 0x22] @ label c @ [CHR 0x22]) Value)
                                     (MCP_COMMANDS T))
                            else if inMcpServers \<and> indent \<ge> 4 \<and> trim linePrefix = [] then
                              Inr (map (\<lambda>f. createCompletion (label f) (detail f) (insertText f)
                                               Property)
                                     (MCP_SERVER_FIELDS T))
                            else if inSubagents \<and> indent \<ge> 2 \<and> matchesDash linePrefix then
                              Inr [createCompletion ''path'' ''Path to subagent file'' ''path: ./''
                                     Property]
                            else if inSubagents \<and> indent \<ge> 2 \<and> matchesKey ''path'' linePrefix then
                              Inr (getAgentUseFiles h document)
                            else if inSubagents \<and> indent \<ge> 2 \<and> trim linePrefix = [] then
                              Inr [createCompletion ''name'' ''Reference name for subagent''
                                     ''name: '' Property]
                            else if inTools \<and> indent \<ge> 2 \<and> matchesDash linePrefix then
                              Inr []
                            else if indent = 0 \<and> trim linePrefix = [] then
                              Inr (map (\<lambda>f. createCompletion (label f) (detail f) (insertText f)
                                               Property)
                                     (filter (\<lambda>f. label f \<notin> getExistingFields frontmatterContent)
                                        (FRONTMATTER_FIELDS T)))
                            else Inr []))))"

text \<open>A label that is an identifier: not empty, word characters only.\<close>

definition identifierLabel :: "string \<Rightarrow> bool" where
  "identifierLabel w = (w \<noteq> [] \<and> list_all isWordChar w)"

text \<open>The field named \<open>w\<close> is present in the frontmatter: some line begins with \<open>w\<close>
  followed by a colon.\<close>

definition fieldPresent :: "string \<Rightarrow> string \<Rightarrow> bool" where
  "fieldPresent frontmatter w = list_ex (\<lambda>l. startsWith l (w @ '':'')) (split_nl frontmatter)"

subsection \<open>The tables of the revision with inline tables\<close>

text \<open>The five tables as the earlier revision of the extension declares them.\<close>

definition inlineModels :: "model_item list" where
  "inlineModels =
     [\<lparr>label = ''anthropic:claude-opus-4-1'', detail = ''Most capable Claude model'', info = None\<rparr>,
      \<lparr>label = ''anthropic:claude-sonnet-4-0'', detail = ''Balanced performance and speed'', info = None\<rparr>,
      \<lparr>label = ''anthropic:claude-3-5-haiku-latest'', detail = ''Fast and cost-effective'', info = None\<rparr>,
      \<lparr>label = ''openai:gpt-5'', detail = ''Most capable OpenAI model'', info = None\<rparr>,
      \<lparr>label = ''openai:gpt-5-mini'', detail = ''Balanced OpenAI model'', info = None\<rparr>,
      \<lparr>label = ''openai:gpt-5-nano'', detail = ''Fast and lightweight OpenAI model'', info = None\<rparr>,
      \<lparr>label = ''openai:gpt-4.1'', detail = ''GPT-4.1 model'', info = None\<rparr>,
      \<lparr>label = ''openai:gpt-4.1-mini'', detail = ''Fast GPT-4.1 model'', info = None\<rparr>,
      \<lparr>label = ''openai:o4-mini'', detail = ''Reasoning model'', info = None\<rparr>]"

definition inlineFrontmatterFields :: "field_item list" where
  "inlineFrontmatterFields =
     [\<lparr>label = ''model'', detail = ''LLM provider and model'', insertText = ''model: ''\<rparr>,
      \<lparr>label = ''timeout'', detail = ''Execution timeout in milliseconds'', insertText = ''timeout: ''\<rparr>,
      \<lparr>label = ''maxSteps'', detail = ''Maximum reasoning steps'', insertText = ''maxSteps: ''\<rparr>,
      \<lparr>label = ''tools'', detail = ''Custom tool references'', insertText = ''tools:\<newline>  - ''\<rparr>,
      \<lparr>label = ''mcp_servers'', detail = ''MCP server configurations'', insertText = ''mcp_servers:\<newline>  ''\<rparr>,
      \<lparr>label = ''subagents'', detail = ''Sub-agent definitions'', insertText = ''subagents:\<newline>  - path: ''\<rparr>]"

definition inlineMcpServerFields :: "field_item list" where
  "inlineMcpServerFields =
     [\<lparr>label = ''command'', detail = ''Command to run (npx, node, uvx, uv)'', insertText = ''command: ''\<rparr>,
      \<lparr>label = ''args'', detail = ''Command arguments'', insertText = ''args:\<newline>      - ''\<rparr>,
      \<lparr>label = ''requiredEnvVars'', detail = ''Required environment variables'', insertText = ''requiredEnvVars:\<newline>      - ''\<rparr>,
      \<lparr>label = ''allowedEnvVars'', detail = ''Optional environment variables'', insertText = ''allowedEnvVars:\<newline>      - ''\<rparr>,
      \<lparr>label = ''env'', detail = ''Direct environment variables'', insertText = ''env:\<newline>      ''\<rparr>,
      \<lparr>label = ''url'', detail = ''Remote MCP server URL'', insertText = ''url: ''\<rparr>,
      \<lparr>label = ''auth'', detail = ''Authentication configuration'', insertText = ''auth:\<newline>      type: bearer\<newline>      token: ${''\<rparr>]"

definition inlineMcpCommands :: "labelled list" where
  "inlineMcpCommands =
     [\<lparr>label = ''npx'', detail = ''Run npm package''\<rparr>,
      \<lparr>label = ''node'', detail = ''Run Node.js script''\<rparr>,
      \<lparr>label = ''uvx'', detail = ''Run Python package''\<rparr>,
      \<lparr>label = ''uv'', detail = ''Run Python with uv''\<rparr>]"

definition inlineCommonMcpServers :: "(string \<times> server_template) list" where
  "inlineCommonMcpServers =
     [(''filesystem'',
       \<lparr>templateDetail = ''File system access'',
        snippet = ''filesystem:\<newline>    command: \"npx\"\<newline>    args:\<newline>      - \"-y\"\<newline>      - \"@modelcontextprotocol/server-filesystem\"\<newline>      - \"./tmp\"''\<rparr>),
      (''puppeteer'',
       \<lparr>templateDetail = ''Browser automation'',
        snippet = ''puppeteer:\<newline>    command: \"npx\"\<newline>    args:\<newline>      - \"-y\"\<newline>      - \"@modelcontextprotocol/server-puppeteer\"''\<rparr>),
      (''slack'',
       \<lparr>templateDetail = ''Slack integration'',
        snippet = ''slack:\<newline>    command: \"npx\"\<newline>    args:\<newline>      - \"-y\"\<newline>      - \"@modelcontextprotocol/server-slack\"\<newline>    allowedEnvVars:\<newline>      - SLACK_BOT_TOKEN\<newline>      - SLACK_TEAM_ID''\<rparr>),
      (''fetch'',
       \<lparr>templateDetail = ''HTTP fetch capabilities'',
        snippet = ''fetch:\<newline>    command: \"uvx\"\<newline>    args:\<newline>      - \"mcp-server-fetch\"''\<rparr>),
      (''github'',
       \<lparr>templateDetail = ''GitHub API access'',
        snippet = ''github:\<newline>    command: \"npx\"\<newline>    args:\<newline>      - \"-y\"\<newline>      - \"@modelcontextprotocol/server-github\"\<newline>    requiredEnvVars:\<newline>      - GITHUB_PERSONAL_ACCESS_TOKEN''\<rparr>),
      (''memory'',
       \<lparr>templateDetail = ''Persistent memory storage'',
        snippet = ''memory:\<newline>    command: \"npx\"\<newline>    args:\<newline>      - \"-y\"\<newline>      - \"@modelcontextprotocol/server-memory\"''\<rparr>),
      (''brave-search'',
       \<lparr>templateDetail = ''Brave search API'',
        snippet = ''brave-search:\<newline>    command: \"npx\"\<newline>    args:\<newline>      - \"-y\"\<newline>      - \"@modelcontextprotocol/server-brave-search\"\<newline>    requiredEnvVars:\<newline>      - BRAVE_API_KEY''\<rparr>),
      (''google-maps'',
       \<lparr>templateDetail = ''Google Maps API'',
        snippet = ''google-maps:\<newline>    command: \"npx\"\<newline>    args:\<newline>      - \"-y\"\<newline>      - \"@modelcontextprotocol/server-google-maps\"\<newline>    requiredEnvVars:\<newline>      - GOOGLE_MAPS_API_KEY''\<rparr>),
      (''sqlite'',
       \<lparr>templateDetail = ''SQLite database access'',
        snippet = ''sqlite:\<newline>    command: \"uvx\"\<newline>    args:\<newline>      - \"mcp-server-sqlite\"\<newline>      - \"--db-path\"\<newline>      - \"./data.db\"''\<rparr>),
      (''postgres'',
       \<lparr>templateDetail = ''PostgreSQL database access'',
        snippet = ''postgres:\<newline>    command: \"npx\"\<newline>    args:\<newline>      - \"-y\"\<newline>      - \"@modelcontextprotocol/server-postgres\"\<newline>    requiredEnvVars:\<newline>      - POSTGRES_CONNECTION_STRING''\<rparr>),
      (''exa'',
       \<lparr>templateDetail = ''Exa search API'',
        snippet = ''exa:\<newline>    command: \"npx\"\<newline>    args:\<newline>      - \"-y\"\<newline>      - \"exa-mcp-server\"\<newline>    requiredEnvVars:\<newline>      - EXA_API_KEY''\<rparr>),
      (''notion'',
       \<lparr>templateDetail = ''Notion integration'',
        snippet = ''notion:\<newline>    command: \"npx\"\<newline>    args:\<newline>      - \"-y\"\<newline>      - \"@suekou/mcp-notion-server\"\<newline>    requiredEnvVars:\<newline>      - NOTION_API_KEY''\<rparr>),
      (''slack-webhook'',
       \<lparr>templateDetail = ''Slack webhook notifications'',
        snippet = ''slack:\<newline>    command: \"npx\"\<newline>    args:\<newline>      - \"-y\"\<newline>      - \"@agentuse/mcp-slack-webhook\"\<newline>    requiredEnvVars:\<newline>      - SLACK_WEBHOOK_URL''\<rparr>)]"


definition inlineTables :: schema_tables where
  "inlineTables =
     \<lparr>MODELS = inlineModels, FRONTMATTER_FIELDS = inlineFrontmatterFields,
      MCP_SERVER_FIELDS = inlineMcpServerFields, MCP_COMMANDS = inlineMcpCommands,
      COMMON_MCP_SERVERS = inlineCommonMcpServers\<rparr>"

subsection \<open>The sync script: parseModels\<close>

text \<open>
  The pieces of the regular expressions of \<^verbatim>\<open>parseModels\<close>, each matching at the start of
  a string and returning what it captured and the rest. Every greedy or lazy piece of
  these expressions is followed by a character it cannot match itself, so the first
  attempt of the matcher is the only one that can succeed.
\<close>

text \<open>A literal.\<close>

definition literal :: "string \<Rightarrow> string \<Rightarrow> string option" where
  "literal p s = (if startsWith s p then Some (drop (length p) s) else None)"

text \<open>\<^verbatim>\<open>\s*\<close>\<close>

definition skipSpace :: "string \<Rightarrow> string" where
  "skipSpace s = dropWhile isWhiteSpace s"

text \<open>\<^verbatim>\<open>'([^']+)'\<close>\<close>

definition quotedText :: "string \<Rightarrow> (string \<times> string) option" where
  "quotedText s =
     (case s of
        [] \<Rightarrow> None
      | c # r \<Rightarrow>
          if c \<noteq> CHR 0x27 then None
          else (let body = takeWhile (\<lambda>x. x \<noteq> CHR 0x27) r;
                    rest = dropWhile (\<lambda>x. x \<noteq> CHR 0x27) r
                in if body = [] then None
                   else (case rest of [] \<Rightarrow> None | q # rest' \<Rightarrow> Some (body, rest'))))"

text \<open>\<^verbatim>\<open>(true|false)\<close>; the script compares the capture with \<^verbatim>\<open>'true'\<close>.\<close>

definition boolWord :: "string \<Rightarrow> (bool \<times> string) option" where
  "boolWord s =
     (if startsWith s ''true'' then Some (True, drop 4 s)
      else if startsWith s ''false'' then Some (False, drop 5 s)
      else None)"

text \<open>\<^verbatim>\<open>\d\<close>, and \<^verbatim>\<open>parseInt(digits, 10)\<close> on a string of digits.\<close>

definition isDigit :: "char \<Rightarrow> bool" where
  "isDigit c = (let n = (of_char c :: nat) in 48 \<le> n \<and> n \<le> 57)"

definition parseInt :: "string \<Rightarrow> nat" where
  "parseInt ds = foldl (\<lambda>a c. 10 * a + (of_char c - 48)) 0 ds"

text \<open>\<^verbatim>\<open>context:\s*(\d+),\<close>\<close>

definition contextField :: "string \<Rightarrow> (string \<times> string) option" where
  "contextField s =
     (case literal ''context:'' s of
        None \<Rightarrow> None
      | Some r \<Rightarrow>
          (let ds = takeWhile isDigit (skipSpace r);
               rest = dropWhile isDigit (skipSpace r)
           in if ds = [] then None
              else (case literal '','' rest of None \<Rightarrow> None | Some rest' \<Rightarrow> Some (ds, rest'))))"

text \<open>\<^verbatim>\<open>[\s\S]*?context:\s*(\d+),\<close>: the lazy group grows until the context field matches.\<close>

fun lazyContext :: "string \<Rightarrow> (string \<times> string) option" where
  "lazyContext [] = contextField []"
| "lazyContext (c # cs) =
     (case contextField (c # cs) of
        Some m \<Rightarrow> Some m
      | None \<Rightarrow> lazyContext cs)"

text \<open>The captures of one match of \<^verbatim>\<open>modelBlockRegex\<close> that the script uses.\<close>

record model_block =
  modelId :: string
  modelName :: string
  blockReasoning :: bool
  blockToolCall :: bool
  blockContext :: string

text \<open>
  \<^verbatim>\<open>modelBlockRegex\<close> at the start of a string: the captures and the rest after the match.
  \<^verbatim>\<open>/'([^']+)':\s*\{\s*id:\s*'([^']+)',\s*name:\s*'([^']+)',\s*reasoning:\s*(true|false),\s*toolCall:\s*(true|false),[\s\S]*?context:\s*(\d+),/\<close>
\<close>

definition matchModelBlock :: "string \<Rightarrow> (model_block \<times> string) option" where
  "matchModelBlock s =
     Option.bind (quotedText s) (\<lambda>(key, s1).
     Option.bind (literal '':'' s1) (\<lambda>s2.
     Option.bind (literal ''{'' (skipSpace s2)) (\<lambda>s3.
     Option.bind (literal ''id:'' (skipSpace s3)) (\<lambda>s4.
     Option.bind (quotedText (skipSpace s4)) (\<lambda>(ident, s5).
     Option.bind (literal '','' s5) (\<lambda>s6.
     Option.bind (literal ''name:'' (skipSpace s6)) (\<lambda>s7.
     Option.bind (quotedText (skipSpace s7)) (\<lambda>(nm, s8).
     Option.bind (literal '','' s8) (\<lambda>s9.
     Option.bind (literal ''reasoning:'' (skipSpace s9)) (\<lambda>s10.
     Option.bind (boolWord (skipSpace s10)) (\<lambda>(rs, s11).
     Option.bind (literal '','' s11) (\<lambda>s12.
     Option.bind (literal ''toolCall:'' (skipSpace s12)) (\<lambda>s13.
     Option.bind (boolWord (skipSpace s13)) (\<lambda>(tc, s14).
     Option.bind (literal '','' s14) (\<lambda>s15.
     Option.bind (lazyContext s15) (\<lambda>(ctx, s16).
       Some (\<lparr>modelId = ident, modelName = nm, blockReasoning = rs, blockToolCall = tc,
               blockContext = ctx\<rparr>, s16)))))))))))))))))"

text \<open>
  The loop \<^verbatim>\<open>while ((match = modelBlockRegex.exec(section)) !== null)\<close> with the global
  flag: the leftmost match at or after the end of the previous one, until there is none.
  \<open>skip\<close> counts the characters of the previous match that are still to be passed.
\<close>

fun modelBlocksFrom :: "string \<Rightarrow> nat \<Rightarrow> model_block list" where
  "modelBlocksFrom [] skip = []"
| "modelBlocksFrom (c # cs) skip =
     (if skip > 0 then modelBlocksFrom cs (skip - 1)
      else (case matchModelBlock (c # cs) of
              Some (m, rest) \<Rightarrow> m # modelBlocksFrom cs (length (c # cs) - length rest - 1)
            | None \<Rightarrow> modelBlocksFrom cs 0))"

definition modelBlocks :: "string \<Rightarrow> model_block list" where
  "modelBlocks section = modelBlocksFrom section 0"

text \<open>
  \<^verbatim>\<open>regex.exec(content)\<close> for \<^verbatim>\<open>/NAME:\s*\{/g\<close> on a fresh expression: the index of the first
  match, if any.
\<close>

definition providerStartsAt :: "string \<Rightarrow> string \<Rightarrow> bool" where
  "providerStartsAt providerName s =
     (case literal (providerName @ '':'') s of
        None \<Rightarrow> False
      | Some r \<Rightarrow> startsWith (skipSpace r) ''{'')"

fun firstIndexFrom :: "(string \<Rightarrow> bool) \<Rightarrow> string \<Rightarrow> nat \<Rightarrow> nat option" where
  "firstIndexFrom P [] i = (if P [] then Some i else None)"
| "firstIndexFrom P (c # cs) i = (if P (c # cs) then Some i else firstIndexFrom P cs (Suc i))"

text \<open>
  The providers found in the content, sorted by the position of their sections, and the
  text of each section: from its start to the start of the next one, the last one to
  the end of the content.
\<close>

definition providerStarts :: "string \<Rightarrow> (string \<times> nat) list" where
  "providerStarts content =
     sort_key snd
       (List.map_filter
          (\<lambda>providerName.
             (case firstIndexFrom (providerStartsAt providerName) content 0 of
                None \<Rightarrow> None
              | Some start \<Rightarrow> Some (providerName, start)))
          [''anthropic'', ''openai'', ''openrouter''])"

definition providerSections :: "string \<Rightarrow> (string \<times> string) list" where
  "providerSections content =
     (let providers = providerStarts content;
          ends = map snd (tl providers) @ [length content]
      in map (\<lambda>((providerName, start), end). (providerName, take (end - start) (drop start content)))
           (zip providers ends))"

text \<open>
  \<^verbatim>\<open>parseModels(content)\<close>, as the TypeScript source of the script returns it: the
  models in the order of the content. The compiled script sorts the array before it
  returns it, which permutes the same entries.
\<close>

definition parseModels :: "string \<Rightarrow> model_item list" where
  "parseModels content =
     concat (map (\<lambda>(providerName, section).
                    map (\<lambda>m. \<lparr>label = providerName @ '':'' @ modelId m,
                               detail = modelName m,
                               info = Some \<lparr>reasoning = blockReasoning m,
                                            toolCall = blockToolCall m,
                                            contextLimit = parseInt (blockContext m)\<rparr>\<rparr>)
                      (modelBlocks section))
            (providerSections content))"

text \<open>
  Two contents of the model file of the command line tool. In the first the provider
  \<open>anthropic\<close> lists the model id \<open>claude-sonnet\<close> under two keys; in the second every id
  occurs once.
\<close>

definition sq :: "string \<Rightarrow> string" where
  "sq w = [CHR 0x27] @ w @ [CHR 0x27]"

definition aliasedModelsFile :: string where
  "aliasedModelsFile =
     ''anthropic: { '' @ sq ''sonnet'' @ '': { id: '' @ sq ''claude-sonnet'' @ '', name: ''
     @ sq ''Sonnet'' @ '', reasoning: true, toolCall: true, limit: { context: 200000, } }, ''
     @ sq ''latest'' @ '': { id: '' @ sq ''claude-sonnet'' @ '', name: '' @ sq ''Sonnet latest''
     @ '', reasoning: true, toolCall: true, limit: { context: 200000, } } }''"

definition plainModelsFile :: string where
  "plainModelsFile =
     ''anthropic: { '' @ sq ''sonnet'' @ '': { id: '' @ sq ''claude-sonnet'' @ '', name: ''
     @ sq ''Sonnet'' @ '', reasoning: true, toolCall: true, limit: { context: 200000, } } }, ''
     @ ''openai: { '' @ sq ''mini'' @ '': { id: '' @ sq ''gpt-5-mini'' @ '', name: ''
     @ sq ''GPT-5 mini'' @ '', reasoning: false, toolCall: true, limit: { context: 128000, } } }''"

subsection \<open>The tables of the generated schema\<close>

text \<open>
  The tables that the sync script writes into the generated schema module. The
  frontmatter fields, the three groups of server fields, the commands and the server
  templates are literals of the script. The models are what \<open>parseModels\<close> returns for
  the model file of the command line tool.
\<close>

definition generatedFrontmatterFields :: "field_item list" where
  "generatedFrontmatterFields =
     [\<lparr>label = ''model'', detail = ''LLM provider and model (required)'', insertText = ''model: ''\<rparr>,
      \<lparr>label = ''description'', detail = ''Brief description of what the agent does'', insertText = ''description: ''\<rparr>,
      \<lparr>label = ''timeout'', detail = ''Execution timeout in seconds (default: 300)'', insertText = ''timeout: ''\<rparr>,
      \<lparr>label = ''maxSteps'', detail = ''Maximum reasoning steps (default: 100)'', insertText = ''maxSteps: ''\<rparr>,
      \<lparr>label = ''openai'', detail = ''OpenAI-specific options (reasoningEffort, textVerbosity)'', insertText = ''openai:\<newline>  reasoningEffort: ''\<rparr>,
      \<lparr>label = ''mcpServers'', detail = ''MCP server configurations'', insertText = ''mcpServers:\<newline>  ''\<rparr>,
      \<lparr>label = ''subagents'', detail = ''Sub-agent definitions'', insertText = ''subagents:\<newline>  - path: ''\<rparr>,
      \<lparr>label = ''tools'', detail = ''Custom tool configurations (filesystem, bash)'', insertText = ''tools:\<newline>  filesystem:\<newline>    - path: ''\<rparr>]"

definition mcpStdioFields :: "field_item list" where
  "mcpStdioFields =
     [\<lparr>label = ''command'', detail = ''Command to run (npx, node, uvx, uv)'', insertText = ''command: ''\<rparr>,
      \<lparr>label = ''args'', detail = ''Command arguments array'', insertText = ''args:\<newline>      - ''\<rparr>,
      \<lparr>label = ''env'', detail = ''Environment variables object'', insertText = ''env:\<newline>      ''\<rparr>]"

definition mcpHttpFields :: "field_item list" where
  "mcpHttpFields =
     [\<lparr>label = ''url'', detail = ''Remote MCP server URL (http:// or https://)'', insertText = ''url: ''\<rparr>,
      \<lparr>label = ''sessionId'', detail = ''Optional session identifier'', insertText = ''sessionId: ''\<rparr>,
      \<lparr>label = ''auth'', detail = ''Authentication configuration'', insertText = ''auth:\<newline>      type: bearer\<newline>      token: ${env:''\<rparr>,
      \<lparr>label = ''headers'', detail = ''Custom HTTP headers'', insertText = ''headers:\<newline>      ''\<rparr>]"

definition mcpSharedFields :: "field_item list" where
  "mcpSharedFields =
     [\<lparr>label = ''requiredEnvVars'', detail = ''Required environment variables (agent fails if missing)'', insertText = ''requiredEnvVars:\<newline>      - ''\<rparr>,
      \<lparr>label = ''allowedEnvVars'', detail = ''Optional environment variables (warns if missing)'', insertText = ''allowedEnvVars:\<newline>      - ''\<rparr>,
      \<lparr>label = ''disallowedTools'', detail = ''Tool patterns to exclude from this server'', insertText = ''disallowedTools:\<newline>      - ''\<rparr>,
      \<lparr>label = ''toolTimeout'', detail = ''Timeout for tool calls in milliseconds'', insertText = ''toolTimeout: ''\<rparr>]"

definition generatedCommands :: "labelled list" where
  "generatedCommands =
     [\<lparr>label = ''npx'', detail = ''Run npm package''\<rparr>,
      \<lparr>label = ''node'', detail = ''Run Node.js script''\<rparr>,
      \<lparr>label = ''uvx'', detail = ''Run Python package with uv''\<rparr>,
      \<lparr>label = ''uv'', detail = ''Run Python with uv''\<rparr>]"

definition generatedServers :: "(string \<times> server_template) list" where
  "generatedServers =
     [(''filesystem'',
       \<lparr>templateDetail = ''File system access'',
        snippet = ''filesystem:\<newline>    command: \"npx\"\<newline>    args:\<newline>      - \"-y\"\<newline>      - \"@modelcontextprotocol/server-filesystem\"\<newline>      - \"${1:./tmp}\"''\<rparr>),
      (''puppeteer'',
       \<lparr>templateDetail = ''Browser automation'',
        snippet = ''puppeteer:\<newline>    command: \"npx\"\<newline>    args:\<newline>      - \"-y\"\<newline>      - \"@modelcontextprotocol/server-puppeteer\"''\<rparr>),
      (''slack'',
       \<lparr>templateDetail = ''Slack integration'',
        snippet = ''slack:\<newline>    command: \"npx\"\<newline>    args:\<newline>      - \"-y\"\<newline>      - \"@modelcontextprotocol/server-slack\"\<newline>    allowedEnvVars:\<newline>      - SLACK_BOT_TOKEN\<newline>      - SLACK_TEAM_ID''\<rparr>),
      (''fetch'',
       \<lparr>templateDetail = ''HTTP fetch capabilities'',
        snippet = ''fetch:\<newline>    command: \"uvx\"\<newline>    args:\<newline>      - \"mcp-server-fetch\"''\<rparr>),
      (''github'',
       \<lparr>templateDetail = ''GitHub API access'',
        snippet = ''github:\<newline>    command: \"npx\"\<newline>    args:\<newline>      - \"-y\"\<newline>      - \"@modelcontextprotocol/server-github\"\<newline>    requiredEnvVars:\<newline>      - GITHUB_PERSONAL_ACCESS_TOKEN''\<rparr>),
      (''memory'',
       \<lparr>templateDetail = ''Persistent memory storage'',
        snippet = ''memory:\<newline>    command: \"npx\"\<newline>    args:\<newline>      - \"-y\"\<newline>      - \"@modelcontextprotocol/server-memory\"''\<rparr>),
      (''brave-search'',
       \<lparr>templateDetail = ''Brave search API'',
        snippet = ''brave-search:\<newline>    command: \"npx\"\<newline>    args:\<newline>      - \"-y\"\<newline>      - \"@modelcontextprotocol/server-brave-search\"\<newline>    requiredEnvVars:\<newline>      - BRAVE_API_KEY''\<rparr>),
      (''google-maps'',
       \<lparr>templateDetail = ''Google Maps API'',
        snippet = ''google-maps:\<newline>    command: \"npx\"\<newline>    args:\<newline>      - \"-y\"\<newline>      - \"@modelcontextprotocol/server-google-maps\"\<newline>    requiredEnvVars:\<newline>      - GOOGLE_MAPS_API_KEY''\<rparr>),
      (''sqlite'',
       \<lparr>templateDetail = ''SQLite database access'',
        snippet = ''sqlite:\<newline>    command: \"uvx\"\<newline>    args:\<newline>      - \"mcp-server-sqlite\"\<newline>      - \"--db-path\"\<newline>      - \"${1:./data.db}\"''\<rparr>),
      (''postgres'',
       \<lparr>templateDetail = ''PostgreSQL database access'',
        snippet = ''postgres:\<newline>    command: \"npx\"\<newline>    args:\<newline>      - \"-y\"\<newline>      - \"@modelcontextprotocol/server-postgres\"\<newline>    requiredEnvVars:\<newline>      - POSTGRES_CONNECTION_STRING''\<rparr>),
      (''exa'',
       \<lparr>templateDetail = ''Exa search API'',
        snippet = ''exa:\<newline>    command: \"npx\"\<newline>    args:\<newline>      - \"-y\"\<newline>      - \"exa-mcp-server\"\<newline>    requiredEnvVars:\<newline>      - EXA_API_KEY''\<rparr>),
      (''notion'',
       \<lparr>templateDetail = ''Notion integration'',
        snippet = ''notion:\<newline>    command: \"npx\"\<newline>    args:\<newline>      - \"-y\"\<newline>      - \"@suekou/mcp-notion-server\"\<newline>    requiredEnvVars:\<newline>      - NOTION_API_KEY''\<rparr>),
      (''slack-webhook'',
       \<lparr>templateDetail = ''Slack webhook notifications'',
        snippet = ''slack-webhook:\<newline>    command: \"npx\"\<newline>    args:\<newline>      - \"-y\"\<newline>      - \"@agentuse/mcp-slack-webhook\"\<newline>    requiredEnvVars:\<newline>      - SLACK_WEBHOOK_URL''\<rparr>)]"

text \<open>\<^verbatim>\<open>MCP_SERVER_FIELDS_ALL\<close>, which the provider imports as \<^verbatim>\<open>MCP_SERVER_FIELDS\<close>.\<close>

definition mcpServerFieldsAll :: "field_item list" where
  "mcpServerFieldsAll =
     mcpStdioFields
     @ filter (\<lambda>f. \<not> list_ex (\<lambda>s. label s = label f) mcpStdioFields) mcpHttpFields
     @ mcpSharedFields"

definition generatedTables :: "model_item list \<Rightarrow> schema_tables" where
  "generatedTables models =
     \<lparr>MODELS = models, FRONTMATTER_FIELDS = generatedFrontmatterFields,
      MCP_SERVER_FIELDS = mcpServerFieldsAll, MCP_COMMANDS = generatedCommands,
      COMMON_MCP_SERVERS = generatedServers\<rparr>"

section \<open>The hover provider\<close>

text \<open>\<^verbatim>\<open>s.includes(sub)\<close>\<close>

fun includesStr :: "string \<Rightarrow> string \<Rightarrow> bool" where
  "includesStr [] sub = (sub = [])"
| "includesStr (c # cs) sub = (startsWith (c # cs) sub \<or> includesStr cs sub)"

text \<open>
  A property read \<^verbatim>\<open>obj[key]\<close> on an object literal: an own property, a property
  inherited from \<^verbatim>\<open>Object.prototype\<close> (which is truthy), or \<^verbatim>\<open>undefined\<close>.
\<close>

datatype 'a property = Own 'a | Inherited | Undefined

definition objectPrototypeKeys :: "string list" where
  "objectPrototypeKeys =
     [''constructor'', ''__defineGetter__'', ''__defineSetter__'', ''hasOwnProperty'',
      ''__lookupGetter__'', ''__lookupSetter__'', ''isPrototypeOf'', ''propertyIsEnumerable'',
      ''toString'', ''valueOf'', ''__proto__'', ''toLocaleString'']"

definition getProperty :: "(string \<times> 'a) list \<Rightarrow> string \<Rightarrow> 'a property" where
  "getProperty obj key =
     (case map_of obj key of
        Some v \<Rightarrow> Own v
      | None \<Rightarrow> if key \<in> set objectPrototypeKeys then Inherited else Undefined)"

text \<open>The keys of the local table \<^verbatim>\<open>fieldDocs\<close>; the documentation texts are not modelled,
  a hover names the entry it shows.\<close>

definition fieldDocs :: "(string \<times> unit) list" where
  "fieldDocs =
     map (\<lambda>k. (k, ()))
       [''model'', ''timeout'', ''maxSteps'', ''tools'', ''mcp_servers'', ''subagents'',
        ''command'', ''args'', ''requiredEnvVars'', ''allowedEnvVars'', ''url'', ''auth'']"

datatype hover =
    FieldHover string
  | InheritedFieldHover string
  | ModelHover model_item
  | ServerHover string server_template
  | InheritedServerHover string

text \<open>
  \<^verbatim>\<open>provideHover(document, position)\<close>; \<open>word\<close> is the text of
  \<^verbatim>\<open>document.getWordRangeAtPosition(position)\<close>, \<open>None\<close> when there is no word at the
  position. The result \<open>None\<close> is \<^verbatim>\<open>null\<close>.
\<close>

definition provideHover ::
  "schema_tables \<Rightarrow> text_document \<Rightarrow> nat \<Rightarrow> string option \<Rightarrow> provider_error + hover option" where
  "provideHover T document line wordAtPosition =
     (case lineAt document line of
        None \<Rightarrow> Inl IllegalLine
      | Some lineText \<Rightarrow>
          (case wordAtPosition of
             None \<Rightarrow> Inr None
           | Some word \<Rightarrow>
               if getProperty fieldDocs word \<noteq> Undefined \<and> includesStr lineText (word @ '':'')
               then Inr (Some (case getProperty fieldDocs word of
                                 Own u \<Rightarrow> FieldHover word
                               | _ \<Rightarrow> InheritedFieldHover word))
               else
                 (case (if includesStr lineText ''model:''
                        then List.find (\<lambda>m. label m = word \<or> includesStr lineText (label m)) (MODELS T)
                        else None) of
                    Some modelInfo \<Rightarrow> Inr (Some (ModelHover modelInfo))
                  | None \<Rightarrow>
                      (case getProperty (COMMON_MCP_SERVERS T) word of
                         Own server \<Rightarrow> Inr (Some (ServerHover word server))
                       | Inherited \<Rightarrow> Inr (Some (InheritedServerHover word))
                       | Undefined \<Rightarrow> Inr None))))"

section \<open>The tables as objects of the running extension\<close>

text \<open>
  In the running extension a table is an array whose elements are objects: the array
  holds references, and a callback that receives an element could assign to its fields.
  \<open>refs\<close> are the references of the array in order, \<open>objs\<close> gives the object behind a
  reference. \<open>elements\<close> is the table as a list of values.
\<close>

record 'a obj_array =
  refs :: "nat list"
  objs :: "nat \<Rightarrow> 'a"

definition elements :: "'a obj_array \<Rightarrow> 'a list" where
  "elements A = map (objs A) (refs A)"

text \<open>
  The array methods the providers call. A callback takes the reference of an element and
  the objects and returns its result and the objects as it leaves them.
  \<^verbatim>\<open>Array.prototype.map\<close> collects the results in a new array, \<^verbatim>\<open>filter\<close> collects in a
  new array the references for which the callback answers true, \<^verbatim>\<open>find\<close> returns the
  first such reference and does not visit the elements after it; none of them assigns to
  the array it is called on.
\<close>

fun arrayMap ::
  "(nat \<Rightarrow> (nat \<Rightarrow> 'a) \<Rightarrow> 'b \<times> (nat \<Rightarrow> 'a)) \<Rightarrow> nat list \<Rightarrow> (nat \<Rightarrow> 'a) \<Rightarrow> 'b list \<times> (nat \<Rightarrow> 'a)"
  where
  "arrayMap f [] \<sigma> = ([], \<sigma>)"
| "arrayMap f (r # rs) \<sigma> =
     (case f r \<sigma> of
        (y, \<sigma>') \<Rightarrow> (case arrayMap f rs \<sigma>' of (ys, \<sigma>'') \<Rightarrow> (y # ys, \<sigma>'')))"

fun arrayFilter ::
  "(nat \<Rightarrow> (nat \<Rightarrow> 'a) \<Rightarrow> bool \<times> (nat \<Rightarrow> 'a)) \<Rightarrow> nat list \<Rightarrow> (nat \<Rightarrow> 'a) \<Rightarrow> nat list \<times> (nat \<Rightarrow> 'a)"
  where
  "arrayFilter p [] \<sigma> = ([], \<sigma>)"
| "arrayFilter p (r # rs) \<sigma> =
     (case p r \<sigma> of
        (keep, \<sigma>') \<Rightarrow>
          (case arrayFilter p rs \<sigma>' of (ks, \<sigma>'') \<Rightarrow> (if keep then r # ks else ks, \<sigma>'')))"

fun arrayFind ::
  "(nat \<Rightarrow> (nat \<Rightarrow> 'a) \<Rightarrow> bool \<times> (nat \<Rightarrow> 'a)) \<Rightarrow> nat list \<Rightarrow> (nat \<Rightarrow> 'a) \<Rightarrow> nat option \<times> (nat \<Rightarrow> 'a)"
  where
  "arrayFind p [] \<sigma> = (None, \<sigma>)"
| "arrayFind p (r # rs) \<sigma> =
     (case p r \<sigma> of
        (hit, \<sigma>') \<Rightarrow> if hit then (Some r, \<sigma>') else arrayFind p rs \<sigma>')"

text \<open>
  A callback that reads the fields of its element and assigns to nothing, as the arrow
  functions of the providers do: \<open>g\<close> computes the result from the element.
\<close>

definition reading :: "('a \<Rightarrow> 'b) \<Rightarrow> nat \<Rightarrow> (nat \<Rightarrow> 'a) \<Rightarrow> 'b \<times> (nat \<Rightarrow> 'a)" where
  "reading g r \<sigma> = (g (\<sigma> r), \<sigma>)"

text \<open>
  The object \<^verbatim>\<open>COMMON_MCP_SERVERS\<close>: its own properties, each a reference to a template
  object, and the template objects.
\<close>

record 'a obj_properties =
  props :: "(string \<times> nat) list"
  propObjs :: "nat \<Rightarrow> 'a"

definition ownEntries :: "'a obj_properties \<Rightarrow> (string \<times> 'a) list" where
  "ownEntries ob = map (\<lambda>(k, r). (k, propObjs ob r)) (props ob)"

text \<open>The five tables of the module, and the values they hold.\<close>

record table_objects =
  modelsArray :: "model_item obj_array"
  frontmatterFieldsArray :: "field_item obj_array"
  mcpServerFieldsArray :: "field_item obj_array"
  mcpCommandsArray :: "labelled obj_array"
  commonMcpServersObject :: "server_template obj_properties"

definition tablesOf :: "table_objects \<Rightarrow> schema_tables" where
  "tablesOf H =
     \<lparr>MODELS = elements (modelsArray H),
      FRONTMATTER_FIELDS = elements (frontmatterFieldsArray H),
      MCP_SERVER_FIELDS = elements (mcpServerFieldsArray H),
      MCP_COMMANDS = elements (mcpCommandsArray H),
      COMMON_MCP_SERVERS = ownEntries (commonMcpServersObject H)\<rparr>"

text \<open>
  \<open>provideCompletionItems\<close> on the table objects: the same branches, with every access to
  a table written as the array method the source calls and the callback the source
  passes. The result is the completion list and the table objects after the call. This
  is the current provider; the branch of the earlier revision that lists the server
  templates is not part of it.
\<close>

definition provideCompletionItemsOn ::
  "table_objects \<Rightarrow> node_host \<Rightarrow> text_document \<Rightarrow> nat \<Rightarrow> nat \<Rightarrow>
   (provider_error + completion_item list) \<times> table_objects" where
  "provideCompletionItemsOn H h document line character =
     (case lineAt document line of
        None \<Rightarrow> (Inl IllegalLine, H)
      | Some lineText \<Rightarrow>
          (let linePrefix = take character lineText
           in case frontmatterMatch (getText document) of
                None \<Rightarrow>
                  if line = 0 \<and> linePrefix = []
                  then (Inr [createSnippetCompletion ''---'' ''Start frontmatter''
                    (''---'' @ [CHR 0x0A]
                     @ ''model: ${1|anthropic:claude-sonnet-4-0,anthropic:claude-opus-4-1,openai:gpt-5|}''
                     @ [CHR 0x0A] @ ''---'' @ [CHR 0x0A, CHR 0x0A] @ ''$0'')
                    Snippet], H)
                  else (Inr [], H)
              | Some (whole, frontmatterContent) \<Rightarrow>
                  (let frontmatterEnd = length whole;
                       cursorOffset = offsetAt document line character
                   in if cursorOffset < 4 \<or> cursorOffset > frontmatterEnd then (Inr [], H)
                      else
                        (let inMcpServers = isInMcpServersBlock line frontmatterContent;
                             inSubagents = isInSubagentsBlock line frontmatterContent;
                             inTools = isInToolsBlock line frontmatterContent;
                             indent = length (takeWhile isWhiteSpace linePrefix)
                         in if matchesKey ''model'' linePrefix then
                              (case arrayMap
                                      (reading (\<lambda>m. createCompletion (label m) (detail m) (label m) Value))
                                      (refs (modelsArray H)) (objs (modelsArray H)) of
                                 (items, \<sigma>') \<Rightarrow>
                                   (Inr items, H\<lparr>modelsArray := (modelsArray H)\<lparr>objs := \<sigma>'\<rparr>\<rparr>))
                            else if matchesCommand linePrefix then
                              (case arrayMap
                                      (reading (\<lambda>c. createCompletion (label c) (detail c)
                                                  ([CHR 0x22] @ label c @ [CHR 0x22]) Value))
                                      (refs (mcpCommandsArray H)) (objs (mcpCommandsArray H)) of
                                 (items, \<sigma>') \<Rightarrow>
                                   (Inr items,
                                    H\<lparr>mcpCommandsArray := (mcpCommandsArray H)\<lparr>objs := \<sigma>'\<rparr>\<rparr>))
                            else if inMcpServers \<and> indent \<ge> 4 \<and> trim linePrefix = [] then
                              (case arrayMap
                                      (reading (\<lambda>f. createCompletion (label f) (detail f) (insertText f)
                                                  Property))
                                      (refs (mcpServerFieldsArray H))
                                      (objs (mcpServerFieldsArray H)) of
                                 (items, \<sigma>') \<Rightarrow>
                                   (Inr items,
                                    H\<lparr>mcpServerFieldsArray :=
                                        (mcpServerFieldsArray H)\<lparr>objs := \<sigma>'\<rparr>\<rparr>))
                            else if inSubagents \<and> indent \<ge> 2 \<and> matchesDash linePrefix then
                              (Inr [createCompletion ''path'' ''Path to subagent file'' ''path: ./''
                                      Property], H)
                            else if inSubagents \<and> indent \<ge> 2 \<and> matchesKey ''path'' linePrefix then
                              (Inr (getAgentUseFiles h document), H)
                            else if inSubagents \<and> indent \<ge> 2 \<and> trim linePrefix = [] then
                              (Inr [createCompletion ''name'' ''Reference name for subagent''
                                      ''name: '' Property], H)
                            else if inTools \<and> indent \<ge> 2 \<and> matchesDash linePrefix then
                              (Inr [], H)
                            else if indent = 0 \<and> trim linePrefix = [] then
                              (let existingFields = getExistingFields frontmatterContent
                               in case arrayFilter
                                         (reading (\<lambda>f. label f \<notin> existingFields))
                                         (refs (frontmatterFieldsArray H))
                                         (objs (frontmatterFieldsArray H)) of
                                    (kept, \<sigma>') \<Rightarrow>
                                      (case arrayMap
                                              (reading (\<lambda>f. createCompletion (label f) (detail f)
                                                          (insertText f) Property))
                                              kept \<sigma>' of
                                         (items, \<sigma>'') \<Rightarrow>
                                           (Inr items,
                                            H\<lparr>frontmatterFieldsArray :=
                                                (frontmatterFieldsArray H)\<lparr>objs := \<sigma>''\<rparr>\<rparr>)))
                            else (Inr [], H)))))"

text \<open>
  \<open>provideHover\<close> on the table objects: \<^verbatim>\<open>MODELS.find\<close> with its callback, and the
  property read \<^verbatim>\<open>COMMON_MCP_SERVERS[word]\<close>, which assigns nothing.
\<close>

definition provideHoverOn ::
  "table_objects \<Rightarrow> text_document \<Rightarrow> nat \<Rightarrow> string option \<Rightarrow>
   (provider_error + hover option) \<times> table_objects" where
  "provideHoverOn H document line wordAtPosition =
     (case lineAt document line of
        None \<Rightarrow> (Inl IllegalLine, H)
      | Some lineText \<Rightarrow>
          (case wordAtPosition of
             None \<Rightarrow> (Inr None, H)
           | Some word \<Rightarrow>
               if getProperty fieldDocs word \<noteq> Undefined \<and> includesStr lineText (word @ '':'')
               then (Inr (Some (case getProperty fieldDocs word of
                                  Own u \<Rightarrow> FieldHover word
                                | _ \<Rightarrow> InheritedFieldHover word)), H)
               else
                 (case (if includesStr lineText ''model:''
                        then arrayFind
                               (reading (\<lambda>m. label m = word \<or> includesStr lineText (label m)))
                               (refs (modelsArray H)) (objs (modelsArray H))
                        else (None, objs (modelsArray H))) of
                    (found, \<sigma>') \<Rightarrow>
                      (let H' = H\<lparr>modelsArray := (modelsArray H)\<lparr>objs := \<sigma>'\<rparr>\<rparr>
                       in case found of
                            Some modelInfo \<Rightarrow> (Inr (Some (ModelHover (\<sigma>' modelInfo))), H')
                          | None \<Rightarrow>
                              (case getProperty (props (commonMcpServersObject H')) word of
                                 Own server \<Rightarrow>
                                   (Inr (Some (ServerHover word
                                                 (propObjs (commonMcpServersObject H') server))), H')
                               | Inherited \<Rightarrow> (Inr (Some (InheritedServerHover word)), H')
                               | Undefined \<Rightarrow> (Inr None, H'))))))"

section \<open>The extension as a whole\<close>

text \<open>
  The state that outlives an operation: the table objects, created when the module is
  loaded, and the pseudoterminals of the terminals created so far. An operation is a
  completion request, a hover request, the run command, or input typed into a terminal.
  The two providers are the only handlers in which a table occurs; the run command and
  the terminal input have no expression that refers to one.
\<close>

record extension_state =
  tables :: table_objects
  terminals :: "pseudoterminal list"

datatype operation =
    Complete text_document nat nat
  | Hover text_document nat "string option"
  | Run "string option"
  | TerminalInput nat string

datatype response =
    Items "provider_error + completion_item list"
  | HoverResult "provider_error + hover option"
  | Requests "host_request list"
  | NoResponse

definition step ::
  "node_host \<Rightarrow> string list \<Rightarrow> extension_state \<Rightarrow> operation \<Rightarrow> extension_state \<times> response" where
  "step h workspaceFolders s op =
     (case op of
        Complete document line character \<Rightarrow>
          (case provideCompletionItemsOn (tables s) h document line character of
             (result, H') \<Rightarrow> (s\<lparr>tables := H'\<rparr>, Items result))
      | Hover document line word \<Rightarrow>
          (case provideHoverOn (tables s) document line word of
             (result, H') \<Rightarrow> (s\<lparr>tables := H'\<rparr>, HoverResult result))
      | Run activeTextEditor \<Rightarrow>
          (s\<lparr>terminals := terminals s
                @ map (pty_open workspaceFolders) (createdTerminals (runCommand activeTextEditor))\<rparr>,
           Requests (runCommand activeTextEditor))
      | TerminalInput i data \<Rightarrow>
          (if i < length (terminals s)
           then s\<lparr>terminals := (terminals s)[i := pty_handleInput data (terminals s ! i)]\<rparr>
           else s,
           NoResponse))"

fun runOperations ::
  "node_host \<Rightarrow> string list \<Rightarrow> extension_state \<Rightarrow> operation list \<Rightarrow> extension_state" where
  "runOperations h workspaceFolders s [] = s"
| "runOperations h workspaceFolders s (op # ops) =
     runOperations h workspaceFolders (fst (step h workspaceFolders s op)) ops"

text \<open>The table objects of a list of values: element \<open>i\<close> is the object at reference \<open>i\<close>.\<close>

definition arrayOf :: "'a list \<Rightarrow> 'a obj_array" where
  "arrayOf xs = \<lparr>refs = [0 ..< length xs], objs = (\<lambda>i. xs ! i)\<rparr>"

definition objectOf :: "(string \<times> 'a) list \<Rightarrow> 'a obj_properties" where
  "objectOf kvs = \<lparr>props = zip (map fst kvs) [0 ..< length kvs], propObjs = (\<lambda>i. snd (kvs ! i))\<rparr>"

definition loadTables :: "schema_tables \<Rightarrow> table_objects" where
  "loadTables T =
     \<lparr>modelsArray = arrayOf (MODELS T),
      frontmatterFieldsArray = arrayOf (FRONTMATTER_FIELDS T),
      mcpServerFieldsArray = arrayOf (MCP_SERVER_FIELDS T),
      mcpCommandsArray = arrayOf (MCP_COMMANDS T),
      commonMcpServersObject = objectOf (COMMON_MCP_SERVERS T)\<rparr>"

text \<open>
  An example host and an example document: a frontmatter with the fields \<open>model\<close> and
  \<open>tools\<close> and a blank line before the closing dashes.
\<close>

definition exampleHost :: node_host where
  "exampleHost =
     \<lparr>readdirSync = exampleFs, pathJoin = posixJoin, pathRelative = (\<lambda>from to. to),
      pathDirname = (\<lambda>p. p), pathBasename = (\<lambda>p. p)\<rparr>"

definition exampleDocument :: text_document where
  "exampleDocument =
     \<lparr>getText = ''---\<newline>model: openai:gpt-5\<newline>tools:\<newline>\<newline>---\<newline>Do it'',
      fsPath = ''/w/demo.agentuse'', workspaceFolder = Some ''/w''\<rparr>"

text \<open>The condition under which a run action starts the tool: there is an active editor and
  the path of its document ends with \<open>.agentuse\<close>.\<close>

definition runnable :: "string option \<Rightarrow> bool" where
  "runnable activeTextEditor =
     (case activeTextEditor of None \<Rightarrow> False | Some fp \<Rightarrow> endsWith fp ''.agentuse'')"

section \<open>Properties of the classifiers\<close>

lemma splitOn_nonempty: "splitOn sep s \<noteq> []"
  by (induction s) (auto split: list.splits)

lemma split_nl_nonempty: "split_nl s \<noteq> []"
  by (simp add: split_nl_def splitOn_nonempty)

lemma blockScan_append:
  "blockScan opener (xs @ ys) b = blockScan opener ys (blockScan opener xs b)"
  by (induction xs arbitrary: b) simp_all

lemma blockScan_lastMarker:
  "blockScan opener ls b =
     (case lastMarker opener ls of None \<Rightarrow> b | Some m \<Rightarrow> opener m)"
proof (induction ls rule: rev_induct)
  case Nil
  show ?case by (simp add: lastMarker_def)
next
  case (snoc l ls)
  show ?case
    using snoc.IH
    by (auto simp: blockScan_append lastMarker_def blockTerminator_def split: list.splits)
qed

lemma classifyBlock_lastMarker:
  "classifyBlock opener n fm =
     (1 \<le> n \<and> n \<le> length (split_nl fm) \<and> lastMarkerOpens opener (take n (split_nl fm)))"
proof (cases "1 \<le> n \<and> n \<le> length (split_nl fm)")
  case True
  then have "nat (int n - 1) + 1 = n" by arith
  with True show ?thesis
    by (simp add: classifyBlock_def Let_def blockScan_lastMarker lastMarkerOpens_def)
next
  case False
  then show ?thesis
    by (auto simp: classifyBlock_def Let_def)
qed

lemma startsWith_blockTerminator:
  assumes "startsWith l p" and "p \<noteq> []" and "\<not> isWhiteSpace (hd p)"
  shows "blockTerminator l"
proof -
  from assms(1,2) obtain r where l: "l = hd p # r"
    by (cases l; cases p) (auto simp: startsWith_def)
  have "dropWhile isWhiteSpace (rev r @ [hd p]) \<noteq> []"
    using assms(3) by (simp add: dropWhile_append)
  with l assms(3) show ?thesis
    by (simp add: blockTerminator_def trim_def beginsWithSpace_def)
qed

lemma opener_is_terminator:
  "mcpServersOpener l \<Longrightarrow> blockTerminator l"
  "subagentsOpener l \<Longrightarrow> blockTerminator l"
  "toolsOpener l \<Longrightarrow> blockTerminator l"
proof -
  show "mcpServersOpener l \<Longrightarrow> blockTerminator l"
    unfolding mcpServersOpener_def
  proof (erule disjE)
    assume "startsWith l ''mcp_servers:''"
    then show ?thesis
      by (rule startsWith_blockTerminator) (simp_all add: isWhiteSpace_def)
  next
    assume "startsWith l ''mcpServers:''"
    then show ?thesis
      by (rule startsWith_blockTerminator) (simp_all add: isWhiteSpace_def)
  qed
  show "subagentsOpener l \<Longrightarrow> blockTerminator l"
    unfolding subagentsOpener_def
    by (erule startsWith_blockTerminator) (simp_all add: isWhiteSpace_def)
  show "toolsOpener l \<Longrightarrow> blockTerminator l"
    unfolding toolsOpener_def
    by (erule startsWith_blockTerminator) (simp_all add: isWhiteSpace_def)
qed

lemma openers_exclusive:
  "\<not> (mcpServersOpener l \<and> subagentsOpener l)"
  "\<not> (mcpServersOpener l \<and> toolsOpener l)"
  "\<not> (subagentsOpener l \<and> toolsOpener l)"
  by (cases l; auto simp: mcpServersOpener_def subagentsOpener_def toolsOpener_def startsWith_def)+

lemma inline_opener:
  "mcpServersOpenerInline l \<Longrightarrow> mcpServersOpener l"
  by (simp add: mcpServersOpenerInline_def mcpServersOpener_def)

lemma lastMarker_terminators:
  assumes "\<And>l. opener l \<Longrightarrow> blockTerminator l"
  shows "lastMarker opener ls = lastMarker (\<lambda>_. False) ls"
proof -
  have "(\<lambda>l. opener l \<or> blockTerminator l) = (\<lambda>l. False \<or> blockTerminator l)"
    using assms by auto
  then show ?thesis
    by (simp add: lastMarker_def)
qed

lemma lastMarkerOpens_exclusive:
  assumes "\<And>l. f l \<Longrightarrow> blockTerminator l" and "\<And>l. g l \<Longrightarrow> blockTerminator l"
    and "\<And>l. \<not> (f l \<and> g l)"
  shows "\<not> (lastMarkerOpens f ls \<and> lastMarkerOpens g ls)"
proof -
  have "lastMarker f ls = lastMarker g ls"
    using lastMarker_terminators [of f ls] lastMarker_terminators [of g ls] assms(1,2)
    by simp
  with assms(3) show ?thesis
    by (auto simp: lastMarkerOpens_def split: option.splits)
qed



text \<open>
  C8. For every frontmatter content and cursor line, at most one of the three classifiers
  answers true: no two of them hold together. The same holds with the classifier of the
  block of servers of the earlier revision.
\<close>

theorem block_classifiers_exclusive:
  "\<not> (isInMcpServersBlock L fm \<and> isInSubagentsBlock L fm)
   \<and> \<not> (isInMcpServersBlock L fm \<and> isInToolsBlock L fm)
   \<and> \<not> (isInSubagentsBlock L fm \<and> isInToolsBlock L fm)
   \<and> \<not> (isInMcpServersBlockInline L fm \<and> isInSubagentsBlock L fm)
   \<and> \<not> (isInMcpServersBlockInline L fm \<and> isInToolsBlock L fm)"
proof -
  let ?ls = "take L (split_nl fm)"
  have "\<not> (lastMarkerOpens mcpServersOpener ?ls \<and> lastMarkerOpens subagentsOpener ?ls)"
    by (rule lastMarkerOpens_exclusive) (auto simp: opener_is_terminator openers_exclusive)
  moreover
  have "\<not> (lastMarkerOpens mcpServersOpener ?ls \<and> lastMarkerOpens toolsOpener ?ls)"
    by (rule lastMarkerOpens_exclusive) (auto simp: opener_is_terminator openers_exclusive)
  moreover
  have "\<not> (lastMarkerOpens subagentsOpener ?ls \<and> lastMarkerOpens toolsOpener ?ls)"
    by (rule lastMarkerOpens_exclusive) (auto simp: opener_is_terminator openers_exclusive)
  moreover
  have "\<not> (lastMarkerOpens mcpServersOpenerInline ?ls \<and> lastMarkerOpens subagentsOpener ?ls)"
    by (rule lastMarkerOpens_exclusive)
      (auto simp: opener_is_terminator dest!: inline_opener dest: openers_exclusive [THEN notE, OF conjI])
  moreover
  have "\<not> (lastMarkerOpens mcpServersOpenerInline ?ls \<and> lastMarkerOpens toolsOpener ?ls)"
    by (rule lastMarkerOpens_exclusive)
      (auto simp: opener_is_terminator dest!: inline_opener dest: openers_exclusive [THEN notE, OF conjI])
  ultimately show ?thesis
    unfolding isInMcpServersBlock_def isInSubagentsBlock_def isInToolsBlock_def
      isInMcpServersBlockInline_def classifyBlock_lastMarker
    by blast
qed

section \<open>Properties of the run command and the pseudoterminal\<close>

lemma spawned_pty_open:
  "spawned (pty_open ws t) =
     spawned t @ [\<lparr>command = ''agentuse'', args = [''run'', filePath t], shell = True,
                   cwd = (case ws of [] \<Rightarrow> None | w # _ \<Rightarrow> Some w),
                   envAdded = [(''FORCE_COLOR'', ''1''), (''TERM'', ''xterm-256color'')]\<rparr>]"
  by (simp add: pty_open_def Let_def fire_def)

lemma createdTerminals_runCommand:
  "createdTerminals (runCommand ed) =
     (case ed of
        None \<Rightarrow> []
      | Some fp \<Rightarrow> if endsWith fp ''.agentuse'' then [newPseudoterminal fp] else [])"
  by (simp add: runCommand_def split: option.splits)

lemma runActionSpawns_calls:
  "runActionSpawns ws ed =
     (case ed of
        None \<Rightarrow> []
      | Some fp \<Rightarrow>
          if endsWith fp ''.agentuse''
          then [\<lparr>command = ''agentuse'', args = [''run'', fp], shell = True,
                 cwd = (case ws of [] \<Rightarrow> None | w # _ \<Rightarrow> Some w),
                 envAdded = [(''FORCE_COLOR'', ''1''), (''TERM'', ''xterm-256color'')]\<rparr>]
          else [])"
  by (simp add: runActionSpawns_def createdTerminals_runCommand spawned_pty_open
      newPseudoterminal_def split: option.splits)

text \<open>
  C1. A run action makes one \<^verbatim>\<open>cp.spawn\<close> call, with the command \<open>agentuse\<close> and the
  arguments \<open>run\<close> and the path of the document, but it makes the call with
  \<^verbatim>\<open>shell: true\<close>. For the document \<open>/tmp/v/my file.agentuse\<close> the banner shows the path in
  quotes, the process that is started is the shell with the unquoted line, and the tool
  receives the three arguments \<open>run\<close>, \<open>/tmp/v/my\<close> and \<open>file.agentuse\<close> instead of the two
  of the call. For the document \<open>/tmp/v/a;touch x.agentuse\<close> the shell starts a second
  program. So the child is not invoked with the argument list \<open>run\<close>, path, and more than
  one subprocess can be started.
\<close>

theorem run_action_shell_splits_path:
  "map (\<lambda>c. (command c, args c, shell c)) (runActionSpawns [] (Some ''/tmp/v/my file.agentuse''))
     = [(''agentuse'', [''run'', ''/tmp/v/my file.agentuse''], True)]
   \<and> hd (written (pty_open [] (newPseudoterminal ''/tmp/v/my file.agentuse'')))
     = ''Running: agentuse run \"/tmp/v/my file.agentuse\"'' @ [CHR 0x0D, CHR 0x0A]
   \<and> map spawnedProcess (runActionSpawns [] (Some ''/tmp/v/my file.agentuse''))
     = [\<lparr>executable = ''/bin/sh'', argv = [''-c'', ''agentuse run /tmp/v/my file.agentuse'']\<rparr>]
   \<and> concat (map startedPrograms (runActionSpawns [] (Some ''/tmp/v/my file.agentuse'')))
     = [[''agentuse'', ''run'', ''/tmp/v/my'', ''file.agentuse'']]
   \<and> concat (map startedPrograms (runActionSpawns [] (Some ''/tmp/v/a;touch x.agentuse'')))
     = [[''agentuse'', ''run'', ''/tmp/v/a''], [''touch'', ''x.agentuse'']]"
proof -
  have e: "endsWith ''/tmp/v/my file.agentuse'' ''.agentuse''"
    "endsWith ''/tmp/v/a;touch x.agentuse'' ''.agentuse''"
    by (simp_all add: endsWith_def)
  have 1: "map (\<lambda>c. (command c, args c, shell c))
        (runActionSpawns [] (Some ''/tmp/v/my file.agentuse''))
     = [(''agentuse'', [''run'', ''/tmp/v/my file.agentuse''], True)]"
    by (simp add: runActionSpawns_calls e)
  have 2: "hd (written (pty_open [] (newPseudoterminal ''/tmp/v/my file.agentuse'')))
     = ''Running: agentuse run \"/tmp/v/my file.agentuse\"'' @ [CHR 0x0D, CHR 0x0A]"
    by (simp add: pty_open_def Let_def fire_def newPseudoterminal_def)
  have 3: "map spawnedProcess (runActionSpawns [] (Some ''/tmp/v/my file.agentuse''))
     = [\<lparr>executable = ''/bin/sh'', argv = [''-c'', ''agentuse run /tmp/v/my file.agentuse'']\<rparr>]"
    by (simp add: runActionSpawns_calls e spawnedProcess_def)
  have 4: "concat (map startedPrograms (runActionSpawns [] (Some ''/tmp/v/my file.agentuse'')))
     = [[''agentuse'', ''run'', ''/tmp/v/my'', ''file.agentuse'']]"
    by (simp add: runActionSpawns_calls e startedPrograms_def shellCommands_def shellWords_def)
  have 5: "concat (map startedPrograms (runActionSpawns [] (Some ''/tmp/v/a;touch x.agentuse'')))
     = [[''agentuse'', ''run'', ''/tmp/v/a''], [''touch'', ''x.agentuse'']]"
    by (simp add: runActionSpawns_calls e startedPrograms_def shellCommands_def shellWords_def)
  from 1 2 3 4 5 show ?thesis by blast
qed

text \<open>
  C3. A run command creates a terminal, and with it a subprocess, exactly when there is an
  active editor whose file path ends with \<open>.agentuse\<close>. Otherwise an error message is shown,
  no terminal is created, no subprocess is spawned and no document is saved.
\<close>

theorem run_command_guard:
  "(createdTerminals (runCommand ed) \<noteq> []) = runnable ed
   \<and> (runActionSpawns ws ed \<noteq> []) = runnable ed
   \<and> (\<not> runnable ed \<longrightarrow>
        errorMessages (runCommand ed) \<noteq> []
        \<and> createdTerminals (runCommand ed) = []
        \<and> runActionSpawns ws ed = []
        \<and> savedDocuments (runCommand ed) = [])"
proof -
  have a: "(createdTerminals (runCommand ed) \<noteq> []) = runnable ed"
    by (cases ed) (simp_all add: createdTerminals_runCommand runnable_def)
  have b: "(runActionSpawns ws ed \<noteq> []) = runnable ed"
    by (cases ed) (simp_all add: runActionSpawns_calls runnable_def)
  have c: "\<not> runnable ed \<Longrightarrow>
        errorMessages (runCommand ed) \<noteq> [] \<and> savedDocuments (runCommand ed) = []"
    by (cases ed) (simp_all add: runCommand_def runnable_def)
  from a b c show ?thesis by blast
qed

theorem run_command_guard_witness:
  "\<not> runnable (Some ''/w/notes.txt'')
   \<and> errorMessages (runCommand (Some ''/w/notes.txt'')) \<noteq> []
   \<and> createdTerminals (runCommand (Some ''/w/notes.txt'')) = []
   \<and> runActionSpawns [] (Some ''/w/notes.txt'') = []
   \<and> savedDocuments (runCommand (Some ''/w/notes.txt'')) = []
   \<and> runnable (Some ''/w/demo.agentuse'')
   \<and> createdTerminals (runCommand (Some ''/w/demo.agentuse'')) \<noteq> []
   \<and> errorMessages (runCommand None) \<noteq> []"
proof -
  have n: "\<not> runnable (Some ''/w/notes.txt'')" "\<not> runnable None"
    by (simp_all add: runnable_def endsWith_def)
  have y: "runnable (Some ''/w/demo.agentuse'')"
    by (simp add: runnable_def endsWith_def)
  from n y run_command_guard [of "Some ''/w/notes.txt''" "[]"]
    run_command_guard [of "Some ''/w/demo.agentuse''" "[]"]
    run_command_guard [of None "[]"]
  show ?thesis by blast
qed

text \<open>
  C4. Input to the pseudoterminal: when the input is the single character \<open>0x03\<close> and the
  child exists and is not killed, \<open>SIGINT\<close> is sent to the child and nothing is written to
  its stdin; for every other input, when the child has a stdin stream, the input is
  written to it unchanged and no signal is sent.
\<close>

theorem handle_input_forwarding:
  "(process t = Some p \<and> \<not> killed p \<longrightarrow>
      (\<exists>q. process (pty_handleInput [CHR 0x03] t) = Some q
           \<and> signals q = signals p @ [SIGINT]
           \<and> stdinWrites q = stdinWrites p))
   \<and> (data \<noteq> [CHR 0x03] \<and> process t = Some p \<and> hasStdin p \<longrightarrow>
      (\<exists>q. process (pty_handleInput data t) = Some q
           \<and> stdinWrites q = stdinWrites p @ [data]
           \<and> signals q = signals p))"
  by (simp add: pty_handleInput_def kill_def fire_def)

theorem handle_input_forwarding_witness:
  "(\<exists>q. process (pty_handleInput [CHR 0x03] (pty_open [] (newPseudoterminal ''a.agentuse''))) = Some q
        \<and> signals q = [SIGINT] \<and> stdinWrites q = [])
   \<and> (\<exists>q. process (pty_handleInput ''yes'' (pty_open [] (newPseudoterminal ''a.agentuse''))) = Some q
        \<and> stdinWrites q = [''yes''] \<and> signals q = [])"
proof -
  let ?t = "pty_open [] (newPseudoterminal ''a.agentuse'')"
  let ?p = "spawn \<lparr>command = ''agentuse'', args = [''run'', ''a.agentuse''], shell = True,
                   cwd = None,
                   envAdded = [(''FORCE_COLOR'', ''1''), (''TERM'', ''xterm-256color'')]\<rparr>"
  have p: "process ?t = Some ?p"
    by (simp add: pty_open_def Let_def fire_def newPseudoterminal_def)
  have f: "\<not> killed ?p" "hasStdin ?p" "signals ?p = []" "stdinWrites ?p = []"
    by (simp_all add: spawn_def)
  have d: "''yes'' \<noteq> [CHR 0x03]" by simp
  from p f d handle_input_forwarding [of ?t ?p "''yes''"]
  show ?thesis by simp
qed



lemma replaceNewlines_length:
  "length (replaceNewlines d) = length d + length (filter (\<lambda>c. c = CHR 0x0A) d)"
  by (induction d) (simp_all add: replaceNewlines_def)




section \<open>Properties of the discovery\<close>

lemma find_returns:
  "\<exists>files. findAgentUseFilesRecursive rd pj dir m d = Inr files"
  by (subst findAgentUseFilesRecursive.simps) simp

lemma find_loop:
  "fold
     (\<lambda>entry (files, thrown).
        case thrown of
          Some err \<Rightarrow> (files, thrown)
        | None \<Rightarrow>
            if startsWith (name entry) ''.'' \<or> name entry = ''node_modules''
            then (files, None)
            else
              let fullPath = pj dir (name entry)
              in if isDirectory entry then
                   (case findAgentUseFilesRecursive rd pj fullPath m (d + 1) of
                      Inl err \<Rightarrow> (files, Some err)
                    | Inr found \<Rightarrow> (files @ found, None))
                 else if endsWith (name entry) ''.agentuse''
                 then (files @ [fullPath], None)
                 else (files, None))
     entries (acc, None)
   = (acc @ concat (map (entryFiles rd pj dir m d) entries), None)"
proof (induction entries arbitrary: acc)
  case Nil
  show ?case by simp
next
  case (Cons e es)
  obtain found where f: "findAgentUseFilesRecursive rd pj (pj dir (name e)) m (Suc d) = Inr found"
    using find_returns by blast
  show ?case
    by (simp add: Cons.IH entryFiles_def skipped_def f Let_def)
qed

lemma find_unfold:
  "findAgentUseFilesRecursive rd pj dir m d =
     Inr (if m \<le> d then []
          else case rd dir of
                 Inl err \<Rightarrow> []
               | Inr entries \<Rightarrow> concat (map (entryFiles rd pj dir m d) entries))"
  by (subst findAgentUseFilesRecursive.simps) (simp add: find_loop split: sum.splits)


lemma listedAt_Cons:
  "cs \<noteq> [] \<Longrightarrow>
   listedAt rd pj dir (c # cs) =
     (case rd dir of
        Inl err \<Rightarrow> False
      | Inr entries \<Rightarrow>
          list_ex (\<lambda>e. name e = c \<and> isDirectory e) entries \<and> listedAt rd pj (pj dir c) cs)"
  by (cases cs) (simp_all split: sum.splits)

lemma find_sound:
  "p \<in> set (projr (findAgentUseFilesRecursive rd pj dir m d)) \<Longrightarrow>
   \<exists>cs. p = foldl pj dir cs \<and> listedAt rd pj dir cs \<and> cs \<noteq> [] \<and> length cs \<le> m - d
        \<and> endsWith (last cs) ''.agentuse'' \<and> list_all (\<lambda>c. \<not> skipped c) cs"
proof (induction k \<equiv> "m - d" arbitrary: dir d p)
  case 0
  then show ?case by (simp add: find_unfold)
next
  case (Suc k)
  from Suc.hyps(2) have md: "\<not> m \<le> d" by arith
  from Suc.prems md obtain entries where rd: "rd dir = Inr entries"
    and "p \<in> set (concat (map (entryFiles rd pj dir m d) entries))"
    by (cases "rd dir") (simp_all add: find_unfold)
  then obtain e where e: "e \<in> set entries"
    and p: "p \<in> set (entryFiles rd pj dir m d e)"
    by auto
  from p have ns: "\<not> skipped (name e)"
    by (auto simp: entryFiles_def split: if_splits)
  show ?case
  proof (cases "isDirectory e")
    case True
    with p ns have "p \<in> set (projr (findAgentUseFilesRecursive rd pj (pj dir (name e)) m (Suc d)))"
      by (simp add: entryFiles_def)
    moreover from Suc.hyps(2) have "k = m - Suc d" by arith
    ultimately obtain cs where cs: "p = foldl pj (pj dir (name e)) cs"
      "listedAt rd pj (pj dir (name e)) cs" "cs \<noteq> []" "length cs \<le> m - Suc d"
      "endsWith (last cs) ''.agentuse''" "list_all (\<lambda>c. \<not> skipped c) cs"
      using Suc.hyps(1) by blast
    have "listedAt rd pj dir (name e # cs)"
      using cs(2,3) rd e True by (auto simp: listedAt_Cons list_ex_iff)
    moreover have "length (name e # cs) \<le> m - d"
      using cs(4) md by simp
    ultimately show ?thesis
      using cs ns by (intro exI [of _ "name e # cs"]) simp
  next
    case False
    with p ns have pe: "p = pj dir (name e)" and ext: "endsWith (name e) ''.agentuse''"
      by (auto simp: entryFiles_def split: if_splits)
    have "listedAt rd pj dir [name e]"
      using rd e False by (auto simp: list_ex_iff)
    then show ?thesis
      using pe ext ns md by (intro exI [of _ "[name e]"]) simp
  qed
qed

lemma find_complete:
  "listedAt rd pj dir cs \<Longrightarrow> length cs \<le> m - d \<Longrightarrow> list_all (\<lambda>c. \<not> skipped c) cs \<Longrightarrow>
   endsWith (last cs) ''.agentuse'' \<Longrightarrow>
   foldl pj dir cs \<in> set (projr (findAgentUseFilesRecursive rd pj dir m d))"
proof (induction cs arbitrary: dir d)
  case Nil
  then show ?case by simp
next
  case (Cons c cs)
  from Cons.prems(2) have md: "\<not> m \<le> d" by simp
  show ?case
  proof (cases "cs = []")
    case True
    with Cons.prems(1) obtain entries e where rd: "rd dir = Inr entries"
      and e: "e \<in> set entries" "name e = c" "\<not> isDirectory e"
      by (auto simp: list_ex_iff split: sum.splits)
    from Cons.prems(3,4) True e have "pj dir c \<in> set (entryFiles rd pj dir m d e)"
      by (simp add: entryFiles_def)
    with rd e(1) md True show ?thesis
      by (auto simp: find_unfold)
  next
    case False
    with Cons.prems(1) obtain entries e where rd: "rd dir = Inr entries"
      and e: "e \<in> set entries" "name e = c" "isDirectory e"
      and l: "listedAt rd pj (pj dir c) cs"
      by (auto simp: listedAt_Cons list_ex_iff split: sum.splits)
    have "foldl pj (pj dir c) cs \<in> set (projr (findAgentUseFilesRecursive rd pj (pj dir c) m (Suc d)))"
      using Cons.prems(2,3,4) False l by (intro Cons.IH) simp_all
    with Cons.prems(3) e have "foldl pj dir (c # cs) \<in> set (entryFiles rd pj dir m d e)"
      by (simp add: entryFiles_def)
    with rd e(1) md show ?thesis
      by (auto simp: find_unfold)
  qed
qed

lemma find_unreadableAsEmpty:
  "findAgentUseFilesRecursive (unreadableAsEmpty rd) pj dir m d =
   findAgentUseFilesRecursive rd pj dir m d"
proof (induction k \<equiv> "m - d" arbitrary: dir d)
  case 0
  then show ?case by (simp add: find_unfold)
next
  case (Suc k)
  have "entryFiles (unreadableAsEmpty rd) pj dir m d = entryFiles rd pj dir m d"
  proof
    fix e :: dirent
    from Suc.hyps(2) have "k = m - Suc d" by arith
    then have "findAgentUseFilesRecursive (unreadableAsEmpty rd) pj (pj dir (name e)) m (Suc d)
         = findAgentUseFilesRecursive rd pj (pj dir (name e)) m (Suc d)"
      by (rule Suc.hyps(1))
    then show "entryFiles (unreadableAsEmpty rd) pj dir m d e = entryFiles rd pj dir m d e"
      by (simp add: entryFiles_def)
  qed
  then show ?case
    by (cases "rd dir")
      (simp_all add: find_unfold [of "unreadableAsEmpty rd"] find_unfold [of rd]
        unreadableAsEmpty_def)
qed

lemma find_depth_local:
  "(\<And>cs. length cs < m - d \<Longrightarrow> dirChain rd pj dir cs \<Longrightarrow>
          rd (foldl pj dir cs) = rd' (foldl pj dir cs)) \<Longrightarrow>
   findAgentUseFilesRecursive rd pj dir m d = findAgentUseFilesRecursive rd' pj dir m d"
proof (induction k \<equiv> "m - d" arbitrary: dir d)
  case 0
  then show ?case by (simp add: find_unfold)
next
  case (Suc k)
  from Suc.hyps(2) have md: "\<not> m \<le> d" and k: "k = m - Suc d" by arith+
  from Suc.prems [of "[]"] md have here: "rd dir = rd' dir" by simp
  show ?case
  proof (cases "rd dir")
    case (Inl err)
    with here have "rd' dir = Inl err" by simp
    with Inl show ?thesis
      by (simp add: find_unfold [of rd] find_unfold [of rd'])
  next
    case (Inr entries)
    have "entryFiles rd pj dir m d e = entryFiles rd' pj dir m d e" if e: "e \<in> set entries" for e
    proof (cases "isDirectory e")
      case True
      have "findAgentUseFilesRecursive rd pj (pj dir (name e)) m (Suc d)
           = findAgentUseFilesRecursive rd' pj (pj dir (name e)) m (Suc d)"
      proof (rule Suc.hyps(1) [OF k])
        fix cs :: "string list"
        assume l: "length cs < m - Suc d" and c: "dirChain rd pj (pj dir (name e)) cs"
        from l have "length (name e # cs) < m - d" by simp
        moreover from c e True Inr have "dirChain rd pj dir (name e # cs)"
          by (auto simp: list_ex_iff)
        ultimately have "rd (foldl pj dir (name e # cs)) = rd' (foldl pj dir (name e # cs))"
          by (rule Suc.prems)
        then show "rd (foldl pj (pj dir (name e)) cs) = rd' (foldl pj (pj dir (name e)) cs)"
          by simp
      qed
      then show ?thesis
        by (simp add: entryFiles_def)
    next
      case False
      then show ?thesis
        by (simp add: entryFiles_def)
    qed
    then have "concat (map (entryFiles rd pj dir m d) entries)
        = concat (map (entryFiles rd' pj dir m d) entries)"
      by (simp cong: map_cong)
    moreover from here Inr have "rd' dir = Inr entries" by simp
    ultimately show ?thesis
      using Inr by (simp add: find_unfold [of rd] find_unfold [of rd'])
  qed
qed

text \<open>
  C6. The discovery never lets an exception out: for every file system the scan returns a
  list. A directory that cannot be enumerated counts as empty, and every agent file that
  is reached through readable directories within the depth, on a path without skipped
  names, is still returned; when the scanned directory itself cannot be read the result is
  empty. \<open>getAgentUseFiles\<close> returns no item when the document belongs to no workspace
  folder or when the workspace folder cannot be enumerated.
\<close>

theorem discovery_suppresses_errors:
  "(\<exists>files. findAgentUseFilesRecursive rd pj dir m d = Inr files)
   \<and> findAgentUseFilesRecursive (unreadableAsEmpty rd) pj dir m d
       = findAgentUseFilesRecursive rd pj dir m d
   \<and> (listedAt rd pj dir cs \<and> length cs \<le> m - d \<and> list_all (\<lambda>c. \<not> skipped c) cs
        \<and> endsWith (last cs) ''.agentuse''
       \<longrightarrow> foldl pj dir cs \<in> set (projr (findAgentUseFilesRecursive rd pj dir m d)))
   \<and> (rd dir = Inl err \<longrightarrow> findAgentUseFilesRecursive rd pj dir m d = Inr [])
   \<and> (workspaceFolder doc = None \<longrightarrow> getAgentUseFiles h doc = [])
   \<and> (workspaceFolder doc = Some folder \<and> readdirSync h folder = Inl err
       \<longrightarrow> getAgentUseFiles h doc = [])"
proof -
  have 1: "\<exists>files. findAgentUseFilesRecursive rd pj dir m d = Inr files"
    by (rule find_returns)
  have 2: "findAgentUseFilesRecursive (unreadableAsEmpty rd) pj dir m d
       = findAgentUseFilesRecursive rd pj dir m d"
    by (rule find_unreadableAsEmpty)
  have 3: "listedAt rd pj dir cs \<and> length cs \<le> m - d \<and> list_all (\<lambda>c. \<not> skipped c) cs
        \<and> endsWith (last cs) ''.agentuse''
       \<longrightarrow> foldl pj dir cs \<in> set (projr (findAgentUseFilesRecursive rd pj dir m d))"
    using find_complete [of rd pj dir cs m d] by blast
  have 4: "rd dir = Inl err \<longrightarrow> findAgentUseFilesRecursive rd pj dir m d = Inr []"
    by (simp add: find_unfold)
  have 5: "workspaceFolder doc = None \<longrightarrow> getAgentUseFiles h doc = []"
    by (simp add: getAgentUseFiles_def)
  have 6: "workspaceFolder doc = Some folder \<and> readdirSync h folder = Inl err
       \<longrightarrow> getAgentUseFiles h doc = []"
    by (simp add: getAgentUseFiles_def find_unfold)
  from 1 2 3 4 5 6 show ?thesis by blast
qed

theorem discovery_suppresses_errors_witness:
  "findAgentUseFilesRecursive exampleFs posixJoin ''/w'' 3 0
     = Inr [''/w/a.agentuse'', ''/w/sub/b.agentuse'']
   \<and> exampleFs ''/w/locked'' = Inl EACCES
   \<and> ''/w/sub/b.agentuse''
       \<in> set (projr (findAgentUseFilesRecursive exampleFs posixJoin ''/w'' 3 0))
   \<and> findAgentUseFilesRecursive exampleFs posixJoin ''/w/locked'' 3 0 = Inr []
   \<and> getAgentUseFiles
        \<lparr>readdirSync = exampleFs, pathJoin = posixJoin, pathRelative = (\<lambda>from to. to),
         pathDirname = (\<lambda>p. p), pathBasename = (\<lambda>p. p)\<rparr>
        \<lparr>getText = [], fsPath = ''/tmp/x.agentuse'', workspaceFolder = None\<rparr> = []
   \<and> getAgentUseFiles
        \<lparr>readdirSync = exampleFs, pathJoin = posixJoin, pathRelative = (\<lambda>from to. to),
         pathDirname = (\<lambda>p. p), pathBasename = (\<lambda>p. p)\<rparr>
        \<lparr>getText = [], fsPath = ''/w/locked/x.agentuse'', workspaceFolder = Some ''/w/locked''\<rparr>
       = []"
proof -
  let ?h = "\<lparr>readdirSync = exampleFs, pathJoin = posixJoin, pathRelative = (\<lambda>from to. to),
             pathDirname = (\<lambda>p. p), pathBasename = (\<lambda>p. p)\<rparr>"
  let ?none = "\<lparr>getText = [], fsPath = ''/tmp/x.agentuse'', workspaceFolder = None\<rparr>"
  let ?locked = "\<lparr>getText = [], fsPath = ''/w/locked/x.agentuse'',
                  workspaceFolder = Some ''/w/locked''\<rparr>"
  have run: "findAgentUseFilesRecursive exampleFs posixJoin ''/w'' 3 0
     = Inr [''/w/a.agentuse'', ''/w/sub/b.agentuse'']"
    by (simp add: find_unfold entryFiles_def exampleFs_def posixJoin_def skipped_def
        startsWith_def endsWith_def)
  have locked: "exampleFs ''/w/locked'' = Inl EACCES"
    by (simp add: exampleFs_def)
  have listed: "listedAt exampleFs posixJoin ''/w'' [''sub'', ''b.agentuse'']"
    by (simp add: exampleFs_def posixJoin_def)
  have visible: "list_all (\<lambda>c. \<not> skipped c) [''sub'', ''b.agentuse'']"
    by (simp add: skipped_def startsWith_def)
  have ext: "endsWith (last [''sub'', ''b.agentuse'']) ''.agentuse''"
    by (simp add: endsWith_def)
  have path: "foldl posixJoin ''/w'' [''sub'', ''b.agentuse''] = ''/w/sub/b.agentuse''"
    by (simp add: posixJoin_def)
  have a: "''/w/sub/b.agentuse''
       \<in> set (projr (findAgentUseFilesRecursive exampleFs posixJoin ''/w'' 3 0))"
    using discovery_suppresses_errors [of exampleFs posixJoin "''/w''" 3 0
        "[''sub'', ''b.agentuse'']" EACCES ?none ?h "''/w''"]
      listed visible ext path
    by simp
  have b: "findAgentUseFilesRecursive exampleFs posixJoin ''/w/locked'' 3 0 = Inr []"
    using discovery_suppresses_errors [of exampleFs posixJoin "''/w/locked''" 3 0
        "[]" EACCES ?none ?h "''/w''"] locked
    by simp
  have c: "getAgentUseFiles ?h ?none = []"
    using discovery_suppresses_errors [of exampleFs posixJoin "''/w''" 3 0
        "[]" EACCES ?none ?h "''/w''"]
    by simp
  have d: "getAgentUseFiles ?h ?locked = []"
    using discovery_suppresses_errors [of exampleFs posixJoin "''/w''" 3 0
        "[]" EACCES ?locked ?h "''/w/locked''"] locked
    by simp
  from run locked a b c d show ?thesis by blast
qed

text \<open>
  C10. The scan returns on every file system, also on one without a bottom, since the
  recursion is on \<open>maxDepth - currentDepth\<close>. Every returned path names an entry that is
  not a directory and whose name ends with \<open>.agentuse\<close>; it is reached from \<open>dir\<close> by at
  most \<open>maxDepth\<close> components (for \<open>maxDepth = 3\<close>: at most two directories and the file
  name), none of which begins with a dot or is \<open>node_modules\<close>. The result depends on the
  listings of the first \<open>maxDepth\<close> levels only.
\<close>

theorem discovery_bounded_depth:
  "(\<exists>files. findAgentUseFilesRecursive rd pj dir m 0 = Inr files)
   \<and> (findAgentUseFilesRecursive rd pj dir m 0 = Inr files \<and> p \<in> set files \<longrightarrow>
        (\<exists>cs. p = foldl pj dir cs \<and> listedAt rd pj dir cs \<and> 1 \<le> length cs \<and> length cs \<le> m
              \<and> endsWith (last cs) ''.agentuse'' \<and> list_all (\<lambda>c. \<not> skipped c) cs))
   \<and> ((\<forall>cs. length cs < m \<and> dirChain rd pj dir cs \<longrightarrow>
              rd (foldl pj dir cs) = rd' (foldl pj dir cs)) \<longrightarrow>
        findAgentUseFilesRecursive rd pj dir m 0 = findAgentUseFilesRecursive rd' pj dir m 0)"
proof -
  have 1: "\<exists>files. findAgentUseFilesRecursive rd pj dir m 0 = Inr files"
    by (rule find_returns)
  have 2: "\<exists>cs. p = foldl pj dir cs \<and> listedAt rd pj dir cs \<and> 1 \<le> length cs \<and> length cs \<le> m
              \<and> endsWith (last cs) ''.agentuse'' \<and> list_all (\<lambda>c. \<not> skipped c) cs"
    if "findAgentUseFilesRecursive rd pj dir m 0 = Inr files" and "p \<in> set files"
  proof -
    from that have "p \<in> set (projr (findAgentUseFilesRecursive rd pj dir m 0))" by simp
    from find_sound [OF this] obtain cs where
      "p = foldl pj dir cs" "listedAt rd pj dir cs" "cs \<noteq> []" "length cs \<le> m - 0"
      "endsWith (last cs) ''.agentuse''" "list_all (\<lambda>c. \<not> skipped c) cs"
      by blast
    moreover from \<open>cs \<noteq> []\<close> have "1 \<le> length cs" by (cases cs) simp_all
    ultimately show ?thesis by auto
  qed
  have 3: "findAgentUseFilesRecursive rd pj dir m 0 = findAgentUseFilesRecursive rd' pj dir m 0"
    if "\<forall>cs. length cs < m \<and> dirChain rd pj dir cs \<longrightarrow>
              rd (foldl pj dir cs) = rd' (foldl pj dir cs)"
    using that by (intro find_depth_local) simp
  from 1 2 3 show ?thesis by blast
qed

theorem discovery_bounded_depth_witness:
  "findAgentUseFilesRecursive endlessFs posixJoin ''/w'' 3 0
     = Inr [''/w/deep/deep/x.agentuse'', ''/w/deep/x.agentuse'', ''/w/x.agentuse'']
   \<and> (\<exists>cs. ''/w/deep/deep/x.agentuse'' = foldl posixJoin ''/w'' cs
          \<and> listedAt endlessFs posixJoin ''/w'' cs \<and> 1 \<le> length cs \<and> length cs \<le> 3
          \<and> endsWith (last cs) ''.agentuse'' \<and> list_all (\<lambda>c. \<not> skipped c) cs)
   \<and> findAgentUseFilesRecursive endlessFs posixJoin ''/w'' 3 0
       = findAgentUseFilesRecursive
           (\<lambda>d. if d = ''/w/deep/deep/deep'' then Inl ENOENT else endlessFs d)
           posixJoin ''/w'' 3 0"
proof -
  let ?files = "[''/w/deep/deep/x.agentuse'', ''/w/deep/x.agentuse'', ''/w/x.agentuse'']"
  let ?cut = "\<lambda>d. if d = ''/w/deep/deep/deep'' then Inl ENOENT else endlessFs d"
  have run: "findAgentUseFilesRecursive endlessFs posixJoin ''/w'' 3 0 = Inr ?files"
    by (simp add: find_unfold entryFiles_def endlessFs_def posixJoin_def skipped_def
        startsWith_def endsWith_def)
  have mem: "''/w/deep/deep/x.agentuse'' \<in> set ?files"
    by simp
  have agree: "\<forall>cs. length cs < 3 \<and> dirChain endlessFs posixJoin ''/w'' cs \<longrightarrow>
      endlessFs (foldl posixJoin ''/w'' cs) = ?cut (foldl posixJoin ''/w'' cs)"
  proof (intro allI impI)
    fix cs :: "string list"
    assume a: "length cs < 3 \<and> dirChain endlessFs posixJoin ''/w'' cs"
    then consider "cs = []" | "cs = [''deep'']" | "cs = [''deep'', ''deep'']"
      by (cases cs; cases "tl cs"; cases "tl (tl cs)") (auto simp: endlessFs_def)
    then show "endlessFs (foldl posixJoin ''/w'' cs) = ?cut (foldl posixJoin ''/w'' cs)"
      by cases (simp_all add: posixJoin_def)
  qed
  from run mem agree
    discovery_bounded_depth [of endlessFs posixJoin "''/w''" 3 ?files
      "''/w/deep/deep/x.agentuse''" ?cut]
  show ?thesis by simp
qed

section \<open>Properties of the completion provider\<close>

lemma takeWhile_word_prefix:
  assumes "list_all isWordChar w"
  shows "takeWhile isWordChar (w @ CHR '':'' # r) = w"
proof -
  have "\<not> isWordChar CHR '':''" by (simp add: isWordChar_def)
  with assms show ?thesis
    by (simp add: takeWhile_append2 list_all_iff takeWhile_tail)
qed

lemma fieldKey_iff:
  assumes "identifierLabel w"
  shows "fieldKey l = Some w \<longleftrightarrow> startsWith l (w @ '':'')"
proof
  assume "fieldKey l = Some w"
  then have tw: "takeWhile isWordChar l = w"
    and c: "startsWith (drop (length w) l) '':''"
    by (auto simp: fieldKey_def Let_def split: if_splits)
  from c obtain r where "drop (length w) l = CHR '':'' # r"
    by (cases "drop (length w) l") (auto simp: startsWith_def)
  moreover have "l = take (length w) l @ drop (length w) l" by simp
  moreover have "take (length w) l = w"
    using tw by (metis append_eq_conv_conj takeWhile_dropWhile_id)
  ultimately have "l = w @ CHR '':'' # r" by simp
  then show "startsWith l (w @ '':'')"
    by (simp add: startsWith_def)
next
  assume "startsWith l (w @ '':'')"
  then have "take (length w + 1) l = w @ '':''"
    by (simp add: startsWith_def)
  then have "l = w @ CHR '':'' # drop (length w + 1) l"
    by (metis append_take_drop_id append_Cons append_Nil append_assoc)
  then obtain r where l: "l = w @ CHR '':'' # r" by blast
  from assms have "list_all isWordChar w" "w \<noteq> []"
    by (simp_all add: identifierLabel_def)
  then show "fieldKey l = Some w"
    by (simp add: fieldKey_def Let_def l takeWhile_word_prefix startsWith_def)
qed

lemma set_map_filter_fieldKey:
  "w \<in> set (List.map_filter fieldKey ls) \<longleftrightarrow> (\<exists>l \<in> set ls. fieldKey l = Some w)"
  by (induction ls) (auto split: option.splits)

lemma getExistingFields_iff:
  assumes "identifierLabel w"
  shows "w \<in> getExistingFields fm \<longleftrightarrow> fieldPresent fm w"
  using fieldKey_iff [OF assms]
  by (simp add: getExistingFields_def fieldPresent_def list_ex_iff set_map_filter_fieldKey)

lemma provide_top_level:
  assumes fm: "frontmatterMatch (getText doc) = Some (whole, content)"
    and ln: "lineAt doc line = Some lineText"
    and lp: "take character lineText = []"
    and lo: "4 \<le> offsetAt doc line character" and hi: "offsetAt doc line character \<le> length whole"
  shows "provideCompletionItems T h doc line character =
     Inr (map (\<lambda>f. createCompletion (label f) (detail f) (insertText f) Property)
            (filter (\<lambda>f. label f \<notin> getExistingFields content) (FRONTMATTER_FIELDS T)))"
proof -
  have nk: "\<not> matchesKey k []" for k
    by (simp add: matchesKey_def startsWith_def)
  have nc: "\<not> matchesCommand []"
    by (simp add: matchesCommand_def startsWith_def)
  have nd: "\<not> matchesDash []"
    by (simp add: matchesDash_def)
  have tr: "trim [] = []"
    by (simp add: trim_def)
  from lo hi have off: "\<not> (offsetAt doc line character < 4 \<or> length whole < offsetAt doc line character)"
    by simp
  show ?thesis
    unfolding provideCompletionItems_def
    by (simp only: ln fm lp off nk nc nd tr Let_def option.case prod.case if_False if_True
        takeWhile.simps list.size simp_thms not_le less_numeral_extra le_zero_eq zero_neq_numeral
        numeral_eq_iff) simp
qed

text \<open>
  C9. For a cursor inside the frontmatter with nothing before it on its line (a blank line
  with zero indentation in particular), the completion list is exactly the entries of
  \<open>FRONTMATTER_FIELDS\<close>, in table order, whose label does not occur at the start of a
  frontmatter line followed by a colon; a field that is present is never suggested. The
  labels of the table are identifiers, as they are in both revisions of the table.
\<close>

theorem top_level_completion:
  assumes "frontmatterMatch (getText doc) = Some (whole, content)"
    and "lineAt doc line = Some lineText"
    and "take character lineText = []"
    and "4 \<le> offsetAt doc line character"
    and "offsetAt doc line character \<le> length whole"
    and "list_all (\<lambda>f. identifierLabel (label f)) (FRONTMATTER_FIELDS T)"
  shows "provideCompletionItems T h doc line character =
           Inr (map (\<lambda>f. createCompletion (label f) (detail f) (insertText f) Property)
                  (filter (\<lambda>f. \<not> fieldPresent content (label f)) (FRONTMATTER_FIELDS T)))
         \<and> (fieldPresent content w \<longrightarrow>
              w \<notin> set (map itemLabel (projr (provideCompletionItems T h doc line character))))"
proof -
  have "filter (\<lambda>f. label f \<notin> getExistingFields content) (FRONTMATTER_FIELDS T)
      = filter (\<lambda>f. \<not> fieldPresent content (label f)) (FRONTMATTER_FIELDS T)"
    using assms(6) by (intro filter_cong) (simp_all add: list_all_iff getExistingFields_iff)
  with provide_top_level [OF assms(1-5), of T h]
  have eq: "provideCompletionItems T h doc line character =
           Inr (map (\<lambda>f. createCompletion (label f) (detail f) (insertText f) Property)
                  (filter (\<lambda>f. \<not> fieldPresent content (label f)) (FRONTMATTER_FIELDS T)))"
    by simp
  have "itemLabel (createCompletion l d i k) = l" for l d i k
    by (simp add: createCompletion_def)
  then have "fieldPresent content w \<longrightarrow>
      w \<notin> set (map itemLabel (projr (provideCompletionItems T h doc line character)))"
    unfolding eq by auto
  with eq show ?thesis by blast
qed

lemma identifier_labels:
  "list_all (\<lambda>f. identifierLabel (label f)) inlineFrontmatterFields"
  "list_all (\<lambda>f. identifierLabel (label f)) generatedFrontmatterFields"
  by (simp_all add: inlineFrontmatterFields_def generatedFrontmatterFields_def
      identifierLabel_def isWordChar_def)

theorem top_level_completion_witness:
  "map itemLabel (projr (provideCompletionItems (generatedTables []) exampleHost exampleDocument 3 0))
     = [''description'', ''timeout'', ''maxSteps'', ''openai'', ''mcpServers'', ''subagents'']
   \<and> fieldPresent ''model: openai:gpt-5\<newline>tools:\<newline>'' ''tools''
   \<and> ''tools'' \<notin> set (map itemLabel
         (projr (provideCompletionItems (generatedTables []) exampleHost exampleDocument 3 0)))"
proof -
  let ?content = "''model: openai:gpt-5\<newline>tools:\<newline>''"
  let ?whole = "''---\<newline>model: openai:gpt-5\<newline>tools:\<newline>\<newline>---''"
  have fm: "frontmatterMatch (getText exampleDocument) = Some (?whole, ?content)"
    by (simp add: exampleDocument_def frontmatterMatch_def startsWith_def)
  have ls: "split_nl (getText exampleDocument)
      = [''---'', ''model: openai:gpt-5'', ''tools:'', [], ''---'', ''Do it'']"
    by (simp add: exampleDocument_def split_nl_def)
  have ln: "lineAt exampleDocument 3 = Some []"
    by (simp add: lineAt_def ls)
  have lp: "take 0 ([] :: string) = []"
    by simp
  have off: "offsetAt exampleDocument 3 0 = 31"
    by (simp add: offsetAt_def ls)
  have lo: "4 \<le> offsetAt exampleDocument 3 0" and hi: "offsetAt exampleDocument 3 0 \<le> length ?whole"
    by (simp_all add: off)
  have ids: "list_all (\<lambda>f. identifierLabel (label f)) (FRONTMATTER_FIELDS (generatedTables []))"
    by (simp add: generatedTables_def identifier_labels)
  have tools: "fieldPresent ?content ''tools''"
    by (simp add: fieldPresent_def split_nl_def startsWith_def)
  have lines: "split_nl ?content = [''model: openai:gpt-5'', ''tools:'', []]"
    by (simp add: split_nl_def)
  have labels: "map label (filter (\<lambda>f. \<not> fieldPresent ?content (label f))
                   generatedFrontmatterFields)
      = [''description'', ''timeout'', ''maxSteps'', ''openai'', ''mcpServers'', ''subagents'']"
    unfolding fieldPresent_def lines generatedFrontmatterFields_def
    by (simp add: startsWith_def)
  have il: "map itemLabel (map (\<lambda>f. createCompletion (label f) (detail f) (insertText f) Property) fs)
      = map label fs" for fs :: "field_item list"
    by (simp add: createCompletion_def comp_def)
  have ff: "FRONTMATTER_FIELDS (generatedTables []) = generatedFrontmatterFields"
    by (simp add: generatedTables_def)
  note inst = top_level_completion [OF fm ln lp lo hi ids, of exampleHost "''tools''"]
  from inst have "map itemLabel
        (projr (provideCompletionItems (generatedTables []) exampleHost exampleDocument 3 0))
      = map label (filter (\<lambda>f. \<not> fieldPresent ?content (label f)) generatedFrontmatterFields)"
    by (simp only: ff il sum.sel)
  then have 1: "map itemLabel
        (projr (provideCompletionItems (generatedTables []) exampleHost exampleDocument 3 0))
      = [''description'', ''timeout'', ''maxSteps'', ''openai'', ''mcpServers'', ''subagents'']"
    by (simp only: labels)
  from inst tools have 2: "''tools'' \<notin> set (map itemLabel
        (projr (provideCompletionItems (generatedTables []) exampleHost exampleDocument 3 0)))"
    by blast
  from 1 tools 2 show ?thesis by blast
qed

section \<open>Properties of the tables\<close>

lemma inline_tables_distinct:
  "distinct (map label inlineModels)"
  "distinct (map label inlineFrontmatterFields)"
  "distinct (map label inlineMcpServerFields)"
  "distinct (map label inlineMcpCommands)"
  "distinct (map fst inlineCommonMcpServers)"
  by (simp_all add: inlineModels_def inlineFrontmatterFields_def inlineMcpServerFields_def
      inlineMcpCommands_def inlineCommonMcpServers_def)

lemma generated_tables_distinct:
  "distinct (map label generatedFrontmatterFields)"
  "distinct (map label mcpServerFieldsAll)"
  "distinct (map label generatedCommands)"
  "distinct (map fst generatedServers)"
  by (simp_all add: generatedFrontmatterFields_def mcpServerFieldsAll_def mcpStdioFields_def
      mcpHttpFields_def mcpSharedFields_def generatedCommands_def generatedServers_def)

lemma prefix_label_inj:
  assumes "a \<in> {''anthropic'', ''openai'', ''openrouter''}"
    and "b \<in> {''anthropic'', ''openai'', ''openrouter''}"
    and "a @ '':'' @ i = b @ '':'' @ j"
  shows "a = b \<and> i = j"
proof -
  from assms(1) consider "a = ''anthropic''" | "a = ''openai''" | "a = ''openrouter''" by blast
  then show ?thesis
  proof cases
    case 1
    from assms(2) consider "b = ''anthropic''" | "b = ''openai''" | "b = ''openrouter''" by blast
    then show ?thesis using 1 assms(3) by cases simp_all
  next
    case 2
    from assms(2) consider "b = ''anthropic''" | "b = ''openai''" | "b = ''openrouter''" by blast
    then show ?thesis using 2 assms(3) by cases simp_all
  next
    case 3
    from assms(2) consider "b = ''anthropic''" | "b = ''openai''" | "b = ''openrouter''" by blast
    then show ?thesis using 3 assms(3) by cases simp_all
  qed
qed


lemma map_fst_tagged_filter:
  "map fst (List.map_filter (\<lambda>n. case g n of None \<Rightarrow> None | Some v \<Rightarrow> Some (n, v)) ns)
     = filter (\<lambda>n. g n \<noteq> None) ns"
  by (induction ns) (auto split: option.splits)

lemma providerStarts_names:
  "distinct (map fst (providerStarts content))"
  "set (map fst (providerStarts content)) \<subseteq> {''anthropic'', ''openai'', ''openrouter''}"
proof -
  let ?xs = "List.map_filter
          (\<lambda>providerName.
             (case firstIndexFrom (providerStartsAt providerName) content 0 of
                None \<Rightarrow> None
              | Some start \<Rightarrow> Some (providerName, start)))
          [''anthropic'', ''openai'', ''openrouter'']"
  have m: "map fst ?xs = filter (\<lambda>n. firstIndexFrom (providerStartsAt n) content 0 \<noteq> None)
      [''anthropic'', ''openai'', ''openrouter'']"
    by (rule map_fst_tagged_filter)
  have d0: "distinct [''anthropic'', ''openai'', ''openrouter'']" by simp
  have d: "distinct (map fst ?xs)"
    unfolding m using d0 by (rule distinct_filter)
  have s: "set (map fst ?xs) \<subseteq> {''anthropic'', ''openai'', ''openrouter''}"
    unfolding m by auto
  from d have "distinct ?xs \<and> inj_on fst (set ?xs)"
    by (simp add: distinct_map)
  then have "distinct (map fst (sort_key snd ?xs))"
    by (simp add: distinct_map)
  then show "distinct (map fst (providerStarts content))"
    by (simp add: providerStarts_def)
  have "set (map fst (sort_key snd ?xs)) = set (map fst ?xs)"
    by simp
  with s show "set (map fst (providerStarts content)) \<subseteq> {''anthropic'', ''openai'', ''openrouter''}"
    by (simp add: providerStarts_def)
qed

lemma providerSections_names:
  "map fst (providerSections content) = map fst (providerStarts content)"
proof -
  let ?ps = "providerStarts content"
  let ?es = "map snd (tl ?ps) @ [length content]"
  let ?f = "\<lambda>((providerName, start), end).
      (providerName, take (end - start) (drop start content))"
  have "length ?es \<ge> length ?ps" by simp
  then have z: "map fst (zip ?ps ?es) = ?ps"
    by (metis map_fst_zip_take min.absorb1 take_all order_refl length_map)
  have "map fst (map ?f qs) = map fst (map fst qs)" for qs :: "((string \<times> nat) \<times> nat) list"
    by (induction qs) auto
  then have "map fst (map ?f (zip ?ps ?es)) = map fst ?ps"
    by (simp only: z)
  then show ?thesis
    by (simp only: providerSections_def Let_def)
qed

lemma distinct_tagged:
  "distinct (map fst ps) \<Longrightarrow>
   distinct (concat (map (\<lambda>(n, ms). map (Pair n) ms) ps)) \<longleftrightarrow> list_all (\<lambda>(n, ms). distinct ms) ps"
proof (induction ps)
  case Nil
  show ?case by simp
next
  case (Cons p ps)
  obtain n ms where p: "p = (n, ms)" by (cases p)
  from Cons.prems p have n: "n \<notin> fst ` set ps" by simp
  have "set (map (Pair n) ms) \<inter> set (concat (map (\<lambda>(n, ms). map (Pair n) ms) ps)) = {}"
  proof (rule ccontr)
    assume "\<not> ?thesis"
    then obtain x where "x \<in> set (map (Pair n) ms)"
      and "x \<in> set (concat (map (\<lambda>(n, ms). map (Pair n) ms) ps))" by blast
    then have "fst x = n" and "fst x \<in> fst ` set ps" by force+
    with n show False by simp
  qed
  moreover have "distinct (map (Pair n) ms) = distinct ms"
    by (simp add: distinct_map inj_on_def)
  moreover from Cons have "distinct (concat (map (\<lambda>(n, ms). map (Pair n) ms) ps))
      \<longleftrightarrow> list_all (\<lambda>(n, ms). distinct ms) ps" by simp
  ultimately show ?case
    using p by simp
qed

lemma labels_tagged:
  "map label (parseModels content) =
     map (\<lambda>(n, i). n @ '':'' @ i)
       (concat (map (\<lambda>(n, ms). map (Pair n) ms)
          (map (\<lambda>(n, section). (n, map modelId (modelBlocks section))) (providerSections content))))"
  by (simp add: parseModels_def map_concat comp_def case_prod_beta)

lemma parseModels_distinct:
  "distinct (map label (parseModels content)) \<longleftrightarrow>
     list_all (\<lambda>(n, section). distinct (map modelId (modelBlocks section))) (providerSections content)"
proof -
  let ?qs = "map (\<lambda>(n, section). (n, map modelId (modelBlocks section))) (providerSections content)"
  let ?ps = "concat (map (\<lambda>(n, ms). map (Pair n) ms) ?qs)"
  have names: "map fst ?qs = map fst (providerStarts content)"
    by (simp add: providerSections_names [symmetric] comp_def case_prod_beta)
  have sub: "fst ` set ?ps \<subseteq> {''anthropic'', ''openai'', ''openrouter''}"
  proof
    fix a assume "a \<in> fst ` set ?ps"
    then have "a \<in> set (map fst ?qs)" by force
    with names providerStarts_names(2) [of content] show "a \<in> {''anthropic'', ''openai'', ''openrouter''}"
      by auto
  qed
  have "inj_on (\<lambda>(n, i). n @ '':'' @ i) (set ?ps)"
  proof (rule inj_onI)
    fix x y assume x: "x \<in> set ?ps" and y: "y \<in> set ?ps"
      and e: "(case x of (n, i) \<Rightarrow> n @ '':'' @ i) = (case y of (n, i) \<Rightarrow> n @ '':'' @ i)"
    from x y sub have "fst x \<in> {''anthropic'', ''openai'', ''openrouter''}"
      "fst y \<in> {''anthropic'', ''openai'', ''openrouter''}" by blast+
    moreover from e have "fst x @ '':'' @ snd x = fst y @ '':'' @ snd y"
      by (simp add: case_prod_beta)
    ultimately have "fst x = fst y \<and> snd x = snd y" by (rule prefix_label_inj)
    then show "x = y" by (simp add: prod_eq_iff)
  qed
  then have "distinct (map label (parseModels content)) \<longleftrightarrow> distinct ?ps"
    unfolding labels_tagged by (simp add: distinct_map)
  also have "\<dots> \<longleftrightarrow> list_all (\<lambda>(n, ms). distinct ms) ?qs"
    using names providerStarts_names(1) [of content] by (intro distinct_tagged) simp
  also have "\<dots> \<longleftrightarrow> list_all (\<lambda>(n, section). distinct (map modelId (modelBlocks section)))
      (providerSections content)"
    by (simp add: list_all_iff case_prod_beta)
  finally show ?thesis .
qed

lemma aliased_anthropic_start: "firstIndexFrom (providerStartsAt ''anthropic'') aliasedModelsFile 0 = Some 0"
  by (simp add: aliasedModelsFile_def sq_def providerStartsAt_def literal_def startsWith_def skipSpace_def isWhiteSpace_def)

lemma aliased_openai_start: "firstIndexFrom (providerStartsAt ''openai'') aliasedModelsFile 0 = None"
  by (simp add: aliasedModelsFile_def sq_def providerStartsAt_def literal_def startsWith_def)

lemma aliased_openrouter_start: "firstIndexFrom (providerStartsAt ''openrouter'') aliasedModelsFile 0 = None"
  by (simp add: aliasedModelsFile_def sq_def providerStartsAt_def literal_def startsWith_def)

lemma aliased_starts: "providerStarts aliasedModelsFile = [(''anthropic'', 0)]"
  by (simp add: providerStarts_def aliased_anthropic_start aliased_openai_start aliased_openrouter_start)

lemma aliased_sections: "providerSections aliasedModelsFile = [(''anthropic'', aliasedModelsFile)]"
  by (simp add: providerSections_def aliased_starts)

lemma aliased_blocks: "map modelId (modelBlocks aliasedModelsFile) = [''claude-sonnet'', ''claude-sonnet'']"
  by (simp add: modelBlocks_def aliasedModelsFile_def sq_def matchModelBlock_def quotedText_def
      literal_def skipSpace_def boolWord_def contextField_def isDigit_def isWhiteSpace_def
      startsWith_def)

lemma aliased_labels: "map label (parseModels aliasedModelsFile) = [''anthropic:claude-sonnet'', ''anthropic:claude-sonnet'']"
proof -
  have "map label (parseModels aliasedModelsFile)
      = map (\<lambda>i. ''anthropic'' @ '':'' @ i) (map modelId (modelBlocks aliasedModelsFile))"
    by (simp add: parseModels_def aliased_sections comp_def)
  then show ?thesis by (simp add: aliased_blocks)
qed

lemma plain_anthropic_start: "firstIndexFrom (providerStartsAt ''anthropic'') plainModelsFile 0 = Some 0"
  by (simp add: plainModelsFile_def sq_def providerStartsAt_def literal_def startsWith_def skipSpace_def isWhiteSpace_def)

lemma plain_openai_start: "firstIndexFrom (providerStartsAt ''openai'') plainModelsFile 0 = Some 128"
  by (simp add: plainModelsFile_def sq_def providerStartsAt_def literal_def startsWith_def skipSpace_def isWhiteSpace_def)

lemma plain_openrouter_start: "firstIndexFrom (providerStartsAt ''openrouter'') plainModelsFile 0 = None"
  by (simp add: plainModelsFile_def sq_def providerStartsAt_def literal_def startsWith_def)

lemma plain_starts: "providerStarts plainModelsFile = [(''anthropic'', 0), (''openai'', 128)]"
  by (simp add: providerStarts_def plain_anthropic_start plain_openai_start plain_openrouter_start)

lemma plain_sections: "providerSections plainModelsFile
    = [(''anthropic'', take 128 plainModelsFile), (''openai'', drop 128 plainModelsFile)]"
proof -
  have "length plainModelsFile = 251"
    by (simp add: plainModelsFile_def sq_def)
  then show ?thesis
    by (simp add: providerSections_def plain_starts)
qed

lemma plain_blocks_anthropic: "map modelId (modelBlocks (take 128 plainModelsFile)) = [''claude-sonnet'']"
  by (simp add: plainModelsFile_def sq_def
      modelBlocks_def matchModelBlock_def quotedText_def
      literal_def skipSpace_def boolWord_def contextField_def isDigit_def isWhiteSpace_def
      startsWith_def)

lemma plain_blocks_openai: "map modelId (modelBlocks (drop 128 plainModelsFile)) = [''gpt-5-mini'']"
  by (simp add: plainModelsFile_def sq_def
      modelBlocks_def matchModelBlock_def quotedText_def
      literal_def skipSpace_def boolWord_def contextField_def isDigit_def isWhiteSpace_def
      startsWith_def)

lemma plain_ids_distinct: "list_all (\<lambda>(n, section). distinct (map modelId (modelBlocks section))) (providerSections plainModelsFile)"
  by (simp add: plain_sections plain_blocks_anthropic plain_blocks_openai)

lemma arrayMap_read:
  "arrayMap (reading g) rs \<sigma> = (map (\<lambda>r. g (\<sigma> r)) rs, \<sigma>)"
  by (induction rs) (simp_all add: reading_def)

lemma arrayFilter_read:
  "arrayFilter (reading p) rs \<sigma> = (filter (\<lambda>r. p (\<sigma> r)) rs, \<sigma>)"
  by (induction rs) (simp_all add: reading_def)

lemma arrayFind_read:
  "arrayFind (reading p) rs \<sigma> = (List.find (\<lambda>r. p (\<sigma> r)) rs, \<sigma>)"
  by (induction rs) (simp_all add: reading_def)

lemma map_filter_objs:
  "map (\<lambda>r. g (\<sigma> r)) (filter (\<lambda>r. p (\<sigma> r)) rs) = map g (filter p (map \<sigma> rs))"
  by (induction rs) simp_all

lemma find_objs:
  "List.find p (map \<sigma> rs) = map_option \<sigma> (List.find (\<lambda>r. p (\<sigma> r)) rs)"
  by (induction rs) simp_all

lemma getProperty_ownEntries:
  "getProperty (ownEntries ob) word =
     (case getProperty (props ob) word of
        Own r \<Rightarrow> Own (propObjs ob r)
      | Inherited \<Rightarrow> Inherited
      | Undefined \<Rightarrow> Undefined)"
proof -
  have m: "map_of (map (\<lambda>(k, r). (k, f r)) kvs) w = map_option f (map_of kvs w)"
    for f :: "nat \<Rightarrow> 'a" and kvs w
    by (induction kvs) auto
  show ?thesis
    by (cases "map_of (props ob) word") (simp_all add: getProperty_def ownEntries_def m)
qed

lemma pair_if: "(if c then (a, H) else (b, H)) = (if c then a else b, H)"
  by simp

lemma tablesOf_simps:
  "MODELS (tablesOf H) = map (objs (modelsArray H)) (refs (modelsArray H))"
  "FRONTMATTER_FIELDS (tablesOf H) = map (objs (frontmatterFieldsArray H)) (refs (frontmatterFieldsArray H))"
  "MCP_SERVER_FIELDS (tablesOf H) = map (objs (mcpServerFieldsArray H)) (refs (mcpServerFieldsArray H))"
  "MCP_COMMANDS (tablesOf H) = map (objs (mcpCommandsArray H)) (refs (mcpCommandsArray H))"
  "COMMON_MCP_SERVERS (tablesOf H) = ownEntries (commonMcpServersObject H)"
  by (simp_all add: tablesOf_def elements_def)

lemma provideCompletionItemsOn_reads:
  "provideCompletionItemsOn H h document line character
     = (provideCompletionItems (tablesOf H) h document line character, H)"
proof (cases "lineAt document line")
  case None
  then show ?thesis
    by (simp add: provideCompletionItemsOn_def provideCompletionItems_def)
next
  case (Some lineText)
  show ?thesis
  proof (cases "frontmatterMatch (getText document)")
    case None
    with Some show ?thesis
      by (simp add: provideCompletionItemsOn_def provideCompletionItems_def Let_def)
  next
    case inner: (Some wc)
    obtain whole content where wc: "wc = (whole, content)" by (cases wc)
    have m: "(case arrayMap (reading g) rs \<sigma> of (items, \<sigma>') \<Rightarrow> (Inr items, k \<sigma>'))
        = (Inr (map (\<lambda>r. g (\<sigma> r)) rs), k \<sigma>)" for g :: "'x \<Rightarrow> completion_item" and rs \<sigma>
        and k :: "(nat \<Rightarrow> 'x) \<Rightarrow> table_objects"
      by (simp add: arrayMap_read)
    have f: "(case arrayFilter (reading p) rs \<sigma> of
                (kept, \<sigma>') \<Rightarrow> (case arrayMap (reading g) kept \<sigma>' of
                   (items, \<sigma>'') \<Rightarrow> (Inr items, k \<sigma>'')))
        = (Inr (map g (filter p (map \<sigma> rs))), k \<sigma>)" for g :: "'x \<Rightarrow> completion_item" and p rs \<sigma>
        and k :: "(nat \<Rightarrow> 'x) \<Rightarrow> table_objects"
      by (simp add: arrayFilter_read arrayMap_read map_filter_objs)
    have map_objs: "map (\<lambda>r. g (\<sigma> r)) rs = map g (map \<sigma> rs)" for g :: "'x \<Rightarrow> completion_item"
      and \<sigma> :: "nat \<Rightarrow> 'x" and rs
      by simp
    show ?thesis
      unfolding provideCompletionItemsOn_def provideCompletionItems_def Some inner wc
        option.case prod.case Let_def m f map_objs tablesOf_simps
      by (simp add: pair_if arrayFilter_read filter_map comp_def cong: if_cong)
  qed
qed


lemma provideHoverOn_reads:
  "provideHoverOn H document line word = (provideHover (tablesOf H) document line word, H)"
proof (cases "lineAt document line")
  case None
  then show ?thesis
    by (simp add: provideHoverOn_def provideHover_def)
next
  case (Some lineText)
  show ?thesis
  proof (cases word)
    case None
    with Some show ?thesis
      by (simp add: provideHoverOn_def provideHover_def)
  next
    case w: (Some wd)
    let ?p = "\<lambda>m :: model_item. label m = wd \<or> includesStr lineText (label m)"
    let ?\<sigma> = "objs (modelsArray H)"
    have same: "H\<lparr>modelsArray := (modelsArray H)\<lparr>objs := ?\<sigma>\<rparr>\<rparr> = H"
      by simp
    have found: "(if includesStr lineText ''model:''
            then arrayFind (reading ?p) (refs (modelsArray H)) ?\<sigma>
            else (None, ?\<sigma>))
        = (if includesStr lineText ''model:''
           then List.find (\<lambda>r. ?p (?\<sigma> r)) (refs (modelsArray H)) else None, ?\<sigma>)"
      by (simp add: arrayFind_read)
    have pure: "(if includesStr lineText ''model:''
            then List.find ?p (MODELS (tablesOf H)) else None)
        = map_option ?\<sigma> (if includesStr lineText ''model:''
           then List.find (\<lambda>r. ?p (?\<sigma> r)) (refs (modelsArray H)) else None)"
      by (simp add: tablesOf_simps find_objs)
    show ?thesis
    proof (cases "getProperty fieldDocs wd \<noteq> Undefined \<and> includesStr lineText (wd @ '':'')")
      case True
      with Some w show ?thesis
        by (simp add: provideHoverOn_def provideHover_def)
    next
      case False
      then have nf: "(getProperty fieldDocs wd \<noteq> Undefined
          \<and> includesStr lineText (wd @ '':'')) = False"
        by simp
      show ?thesis
      proof (cases "if includesStr lineText ''model:''
           then List.find (\<lambda>r. ?p (?\<sigma> r)) (refs (modelsArray H)) else None")
        case None
        with Some w found pure show ?thesis
          unfolding provideHoverOn_def provideHover_def
          by (cases "getProperty (props (commonMcpServersObject H)) wd")
            (simp_all add: nf Let_def getProperty_ownEntries tablesOf_simps)
      next
        case hit: (Some r)
        with Some w found pure show ?thesis
          unfolding provideHoverOn_def provideHover_def
          by (simp add: nf Let_def)
      qed
    qed
  qed
qed

lemma step_tables: "tables (fst (step h ws s op)) = tables s"
  by (cases op) (simp_all add: step_def provideCompletionItemsOn_reads provideHoverOn_reads)

lemma runOperations_tables: "tables (runOperations h ws s ops) = tables s"
  by (induction ops arbitrary: s) (simp_all add: step_tables)

lemma elements_arrayOf: "elements (arrayOf xs) = xs"
  by (simp add: elements_def arrayOf_def map_nth)

lemma ownEntries_objectOf: "ownEntries (objectOf kvs) = kvs"
proof -
  have "map (\<lambda>(k, r). (k, snd (kvs ! r))) (zip (map fst kvs) [0 ..< length kvs]) = kvs"
    by (rule nth_equalityI) simp_all
  then show ?thesis
    by (simp add: ownEntries_def objectOf_def)
qed

lemma tablesOf_loadTables: "tablesOf (loadTables T) = T"
  by (simp add: tablesOf_def loadTables_def elements_arrayOf ownEntries_objectOf)

text \<open>
  C7, as stated, fails for the table of models of the generated schema: for a model file
  in which one provider lists the id \<open>claude-sonnet\<close> under two keys, \<open>parseModels\<close>
  returns two entries with the label \<open>anthropic:claude-sonnet\<close>.
\<close>

theorem generated_models_duplicate_counterexample:
  "map label (MODELS (generatedTables (parseModels aliasedModelsFile)))
     = [''anthropic:claude-sonnet'', ''anthropic:claude-sonnet'']
   \<and> \<not> distinct (map label (MODELS (generatedTables (parseModels aliasedModelsFile))))"
  by (simp add: generatedTables_def aliased_labels)

text \<open>
  C7, amended. The labels (for the server templates: the keys) are pairwise distinct in
  the five tables of the revision with inline tables and in the frontmatter fields, the
  server fields, the commands and the server templates of the generated schema. The
  labels of the models of the generated schema are pairwise distinct exactly when, in
  each provider section of the model file, the ids of the model blocks are pairwise
  distinct. No operation writes to a table or to an entry: after any sequence of
  completion requests, hover requests, run commands and terminal inputs the table objects
  are the ones the extension was loaded with, and they hold the values they were loaded
  with.
\<close>

theorem tables_distinct_and_never_written:
  "distinct (map label (MODELS inlineTables))
   \<and> distinct (map label (FRONTMATTER_FIELDS inlineTables))
   \<and> distinct (map label (MCP_SERVER_FIELDS inlineTables))
   \<and> distinct (map label (MCP_COMMANDS inlineTables))
   \<and> distinct (map fst (COMMON_MCP_SERVERS inlineTables))
   \<and> distinct (map label (FRONTMATTER_FIELDS (generatedTables (parseModels content))))
   \<and> distinct (map label (MCP_SERVER_FIELDS (generatedTables (parseModels content))))
   \<and> distinct (map label (MCP_COMMANDS (generatedTables (parseModels content))))
   \<and> distinct (map fst (COMMON_MCP_SERVERS (generatedTables (parseModels content))))
   \<and> distinct (map label (MODELS (generatedTables (parseModels content))))
       = list_all (\<lambda>(providerName, section). distinct (map modelId (modelBlocks section)))
           (providerSections content)
   \<and> tables (runOperations h ws s ops) = tables s
   \<and> tablesOf (tables (runOperations h ws \<lparr>tables = loadTables T, terminals = ts\<rparr> ops)) = T"
proof -
  have "distinct (map label (MODELS (generatedTables (parseModels content))))
       = list_all (\<lambda>(providerName, section). distinct (map modelId (modelBlocks section)))
           (providerSections content)"
    using parseModels_distinct [of content] by (simp add: generatedTables_def)
  moreover have "tables (runOperations h ws s ops) = tables s"
    by (rule runOperations_tables)
  moreover have
    "tablesOf (tables (runOperations h ws \<lparr>tables = loadTables T, terminals = ts\<rparr> ops)) = T"
    by (simp add: runOperations_tables tablesOf_loadTables)
  ultimately show ?thesis
    by (simp add: inlineTables_def generatedTables_def inline_tables_distinct
        generated_tables_distinct)
qed

theorem tables_distinct_and_never_written_witness:
  "distinct (map label (MODELS (generatedTables (parseModels plainModelsFile))))
   \<and> tablesOf (tables (runOperations exampleHost [''/w'']
        \<lparr>tables = loadTables inlineTables, terminals = []\<rparr>
        [Run (Some ''/w/demo.agentuse''), TerminalInput 0 ''y'',
         Complete exampleDocument 3 0, Hover exampleDocument 1 (Some ''model'')]))
     = inlineTables"
  using tables_distinct_and_never_written [of plainModelsFile exampleHost "[''/w'']"
      "\<lparr>tables = loadTables inlineTables, terminals = []\<rparr>"
      "[Run (Some ''/w/demo.agentuse''), TerminalInput 0 ''y'',
        Complete exampleDocument 3 0, Hover exampleDocument 1 (Some ''model'')]"
      inlineTables "[]"]
    plain_ids_distinct
  by blast

end
